theory Spec2Isabelle
  imports Main "HOL-Library.Word"
begin

section \<open>Text formatting\<close>

text \<open>
  The messages of \<^verbatim>\<open>errors.go\<close> are built with \<^verbatim>\<open>fmt.Sprintf\<close> and
  \<^verbatim>\<open>strings.Join\<close>. Go strings are byte sequences and so are HOL strings.
  The verb \<^verbatim>\<open>%d\<close> writes an integer in decimal with a leading minus sign for a
  negative value; \<^verbatim>\<open>strings.Join\<close> puts the separator between consecutive
  elements.
\<close>

definition digit_char :: "nat \<Rightarrow> char" where
  "digit_char d = ''0123456789'' ! d"

fun dec_nat :: "nat \<Rightarrow> string" where
  "dec_nat n = (if n < 10 then [digit_char n] else dec_nat (n div 10) @ [digit_char (n mod 10)])"

declare dec_nat.simps [simp del]

definition Sprint_d :: "int \<Rightarrow> string" where
  "Sprint_d i = (if i < 0 then ''-'' @ dec_nat (nat (- i)) else dec_nat (nat i))"

text \<open>
  What it means that a string is the decimal numeral of a natural number, stated
  without the printing function: the string is not empty, consists of decimal digits,
  has no leading zero (unless it is the single digit zero) and, read from left to
  right in base ten, has the number as its value. A number has exactly one such
  numeral. The texts printed through \<^verbatim>\<open>%d\<close> are compared with it.
\<close>

definition digits_value :: "string \<Rightarrow> nat" where
  "digits_value ds = foldl (\<lambda>acc ch. 10 * acc + (of_char ch - 48)) 0 ds"

definition decimal_numeral :: "string \<Rightarrow> nat \<Rightarrow> bool" where
  "decimal_numeral ds n \<longleftrightarrow>
     ds \<noteq> [] \<and> list_all (\<lambda>ch. ch \<in> set ''0123456789'') ds
     \<and> (ds = ''0'' \<or> hd ds \<noteq> CHR ''0'') \<and> digits_value ds = n"

fun Join :: "string list \<Rightarrow> string \<Rightarrow> string" where
  "Join [] sep = ''''"
| "Join [x] sep = x"
| "Join (x # y # ys) sep = x @ sep @ Join (y # ys) sep"

abbreviation newline :: char where "newline \<equiv> CHR 0x0A"
abbreviation tab :: char where "tab \<equiv> CHR 0x09"

section \<open>Protocol error codes\<close>

text \<open>
  \<^verbatim>\<open>type KError int16\<close>: a signed 16-bit machine integer, read with \<open>sint\<close>.
  The constants keep the names and values of the \<^verbatim>\<open>const\<close> block.
\<close>

type_synonym KError = "16 word"

abbreviation ErrNoError :: KError where "ErrNoError \<equiv> 0"
abbreviation ErrUnknown :: KError where "ErrUnknown \<equiv> - 1"
abbreviation ErrOffsetOutOfRange :: KError where "ErrOffsetOutOfRange \<equiv> 1"
abbreviation ErrInvalidMessage :: KError where "ErrInvalidMessage \<equiv> 2"
abbreviation ErrUnknownTopicOrPartition :: KError where "ErrUnknownTopicOrPartition \<equiv> 3"
abbreviation ErrInvalidMessageSize :: KError where "ErrInvalidMessageSize \<equiv> 4"
abbreviation ErrLeaderNotAvailable :: KError where "ErrLeaderNotAvailable \<equiv> 5"
abbreviation ErrNotLeaderForPartition :: KError where "ErrNotLeaderForPartition \<equiv> 6"
abbreviation ErrRequestTimedOut :: KError where "ErrRequestTimedOut \<equiv> 7"
abbreviation ErrBrokerNotAvailable :: KError where "ErrBrokerNotAvailable \<equiv> 8"
abbreviation ErrReplicaNotAvailable :: KError where "ErrReplicaNotAvailable \<equiv> 9"
abbreviation ErrMessageSizeTooLarge :: KError where "ErrMessageSizeTooLarge \<equiv> 10"
abbreviation ErrStaleControllerEpochCode :: KError where "ErrStaleControllerEpochCode \<equiv> 11"
abbreviation ErrOffsetMetadataTooLarge :: KError where "ErrOffsetMetadataTooLarge \<equiv> 12"
abbreviation ErrNetworkException :: KError where "ErrNetworkException \<equiv> 13"
abbreviation ErrOffsetsLoadInProgress :: KError where "ErrOffsetsLoadInProgress \<equiv> 14"
abbreviation ErrConsumerCoordinatorNotAvailable :: KError where "ErrConsumerCoordinatorNotAvailable \<equiv> 15"
abbreviation ErrNotCoordinatorForConsumer :: KError where "ErrNotCoordinatorForConsumer \<equiv> 16"
abbreviation ErrInvalidTopic :: KError where "ErrInvalidTopic \<equiv> 17"
abbreviation ErrMessageSetSizeTooLarge :: KError where "ErrMessageSetSizeTooLarge \<equiv> 18"
abbreviation ErrNotEnoughReplicas :: KError where "ErrNotEnoughReplicas \<equiv> 19"
abbreviation ErrNotEnoughReplicasAfterAppend :: KError where "ErrNotEnoughReplicasAfterAppend \<equiv> 20"
abbreviation ErrInvalidRequiredAcks :: KError where "ErrInvalidRequiredAcks \<equiv> 21"
abbreviation ErrIllegalGeneration :: KError where "ErrIllegalGeneration \<equiv> 22"
abbreviation ErrInconsistentGroupProtocol :: KError where "ErrInconsistentGroupProtocol \<equiv> 23"
abbreviation ErrInvalidGroupId :: KError where "ErrInvalidGroupId \<equiv> 24"
abbreviation ErrUnknownMemberId :: KError where "ErrUnknownMemberId \<equiv> 25"
abbreviation ErrInvalidSessionTimeout :: KError where "ErrInvalidSessionTimeout \<equiv> 26"
abbreviation ErrRebalanceInProgress :: KError where "ErrRebalanceInProgress \<equiv> 27"
abbreviation ErrInvalidCommitOffsetSize :: KError where "ErrInvalidCommitOffsetSize \<equiv> 28"
abbreviation ErrTopicAuthorizationFailed :: KError where "ErrTopicAuthorizationFailed \<equiv> 29"
abbreviation ErrGroupAuthorizationFailed :: KError where "ErrGroupAuthorizationFailed \<equiv> 30"
abbreviation ErrClusterAuthorizationFailed :: KError where "ErrClusterAuthorizationFailed \<equiv> 31"
abbreviation ErrInvalidTimestamp :: KError where "ErrInvalidTimestamp \<equiv> 32"
abbreviation ErrUnsupportedSASLMechanism :: KError where "ErrUnsupportedSASLMechanism \<equiv> 33"
abbreviation ErrIllegalSASLState :: KError where "ErrIllegalSASLState \<equiv> 34"
abbreviation ErrUnsupportedVersion :: KError where "ErrUnsupportedVersion \<equiv> 35"
abbreviation ErrTopicAlreadyExists :: KError where "ErrTopicAlreadyExists \<equiv> 36"
abbreviation ErrInvalidPartitions :: KError where "ErrInvalidPartitions \<equiv> 37"
abbreviation ErrInvalidReplicationFactor :: KError where "ErrInvalidReplicationFactor \<equiv> 38"
abbreviation ErrInvalidReplicaAssignment :: KError where "ErrInvalidReplicaAssignment \<equiv> 39"
abbreviation ErrInvalidConfig :: KError where "ErrInvalidConfig \<equiv> 40"
abbreviation ErrNotController :: KError where "ErrNotController \<equiv> 41"
abbreviation ErrInvalidRequest :: KError where "ErrInvalidRequest \<equiv> 42"
abbreviation ErrUnsupportedForMessageFormat :: KError where "ErrUnsupportedForMessageFormat \<equiv> 43"
abbreviation ErrPolicyViolation :: KError where "ErrPolicyViolation \<equiv> 44"
abbreviation ErrOutOfOrderSequenceNumber :: KError where "ErrOutOfOrderSequenceNumber \<equiv> 45"
abbreviation ErrDuplicateSequenceNumber :: KError where "ErrDuplicateSequenceNumber \<equiv> 46"
abbreviation ErrInvalidProducerEpoch :: KError where "ErrInvalidProducerEpoch \<equiv> 47"
abbreviation ErrInvalidTxnState :: KError where "ErrInvalidTxnState \<equiv> 48"
abbreviation ErrInvalidProducerIDMapping :: KError where "ErrInvalidProducerIDMapping \<equiv> 49"
abbreviation ErrInvalidTransactionTimeout :: KError where "ErrInvalidTransactionTimeout \<equiv> 50"
abbreviation ErrConcurrentTransactions :: KError where "ErrConcurrentTransactions \<equiv> 51"
abbreviation ErrTransactionCoordinatorFenced :: KError where "ErrTransactionCoordinatorFenced \<equiv> 52"
abbreviation ErrTransactionalIDAuthorizationFailed :: KError where "ErrTransactionalIDAuthorizationFailed \<equiv> 53"
abbreviation ErrSecurityDisabled :: KError where "ErrSecurityDisabled \<equiv> 54"
abbreviation ErrOperationNotAttempted :: KError where "ErrOperationNotAttempted \<equiv> 55"
abbreviation ErrKafkaStorageError :: KError where "ErrKafkaStorageError \<equiv> 56"
abbreviation ErrLogDirNotFound :: KError where "ErrLogDirNotFound \<equiv> 57"
abbreviation ErrSASLAuthenticationFailed :: KError where "ErrSASLAuthenticationFailed \<equiv> 58"
abbreviation ErrUnknownProducerID :: KError where "ErrUnknownProducerID \<equiv> 59"
abbreviation ErrReassignmentInProgress :: KError where "ErrReassignmentInProgress \<equiv> 60"
abbreviation ErrDelegationTokenAuthDisabled :: KError where "ErrDelegationTokenAuthDisabled \<equiv> 61"
abbreviation ErrDelegationTokenNotFound :: KError where "ErrDelegationTokenNotFound \<equiv> 62"
abbreviation ErrDelegationTokenOwnerMismatch :: KError where "ErrDelegationTokenOwnerMismatch \<equiv> 63"
abbreviation ErrDelegationTokenRequestNotAllowed :: KError where "ErrDelegationTokenRequestNotAllowed \<equiv> 64"
abbreviation ErrDelegationTokenAuthorizationFailed :: KError where "ErrDelegationTokenAuthorizationFailed \<equiv> 65"
abbreviation ErrDelegationTokenExpired :: KError where "ErrDelegationTokenExpired \<equiv> 66"
abbreviation ErrInvalidPrincipalType :: KError where "ErrInvalidPrincipalType \<equiv> 67"
abbreviation ErrNonEmptyGroup :: KError where "ErrNonEmptyGroup \<equiv> 68"
abbreviation ErrGroupIDNotFound :: KError where "ErrGroupIDNotFound \<equiv> 69"
abbreviation ErrFetchSessionIDNotFound :: KError where "ErrFetchSessionIDNotFound \<equiv> 70"
abbreviation ErrInvalidFetchSessionEpoch :: KError where "ErrInvalidFetchSessionEpoch \<equiv> 71"
abbreviation ErrListenerNotFound :: KError where "ErrListenerNotFound \<equiv> 72"
abbreviation ErrTopicDeletionDisabled :: KError where "ErrTopicDeletionDisabled \<equiv> 73"
abbreviation ErrFencedLeaderEpoch :: KError where "ErrFencedLeaderEpoch \<equiv> 74"
abbreviation ErrUnknownLeaderEpoch :: KError where "ErrUnknownLeaderEpoch \<equiv> 75"
abbreviation ErrUnsupportedCompressionType :: KError where "ErrUnsupportedCompressionType \<equiv> 76"
abbreviation ErrStaleBrokerEpoch :: KError where "ErrStaleBrokerEpoch \<equiv> 77"
abbreviation ErrOffsetNotAvailable :: KError where "ErrOffsetNotAvailable \<equiv> 78"
abbreviation ErrMemberIdRequired :: KError where "ErrMemberIdRequired \<equiv> 79"
abbreviation ErrPreferredLeaderNotAvailable :: KError where "ErrPreferredLeaderNotAvailable \<equiv> 80"
abbreviation ErrGroupMaxSizeReached :: KError where "ErrGroupMaxSizeReached \<equiv> 81"
abbreviation ErrFencedInstancedId :: KError where "ErrFencedInstancedId \<equiv> 82"
abbreviation ErrEligibleLeadersNotAvailable :: KError where "ErrEligibleLeadersNotAvailable \<equiv> 83"
abbreviation ErrElectionNotNeeded :: KError where "ErrElectionNotNeeded \<equiv> 84"
abbreviation ErrNoReassignmentInProgress :: KError where "ErrNoReassignmentInProgress \<equiv> 85"
abbreviation ErrGroupSubscribedToTopic :: KError where "ErrGroupSubscribedToTopic \<equiv> 86"
abbreviation ErrInvalidRecord :: KError where "ErrInvalidRecord \<equiv> 87"
abbreviation ErrUnstableOffsetCommit :: KError where "ErrUnstableOffsetCommit \<equiv> 88"

text \<open>
  \<^verbatim>\<open>func (err KError) Error() string\<close> is a \<^verbatim>\<open>switch\<close> whose arms each return a
  constant string; when no arm matches, control reaches the final \<^verbatim>\<open>Sprintf\<close>.
  The arms stand in the order of the source.
\<close>

definition KError_Error :: "KError \<Rightarrow> string" where
  "KError_Error err =
     (if err = ErrNoError then ''kafka server: Not an error, why are you printing me?''
      else if err = ErrUnknown then ''kafka server: Unexpected (unknown?) server error''
      else if err = ErrOffsetOutOfRange then ''kafka server: The requested offset is outside the range of offsets maintained by the server for the given topic/partition''
      else if err = ErrInvalidMessage then ''kafka server: Message contents does not match its CRC''
      else if err = ErrUnknownTopicOrPartition then ''kafka server: Request was for a topic or partition that does not exist on this broker''
      else if err = ErrInvalidMessageSize then ''kafka server: The message has a negative size''
      else if err = ErrLeaderNotAvailable then ''kafka server: In the middle of a leadership election, there is currently no leader for this partition and hence it is unavailable for writes''
      else if err = ErrNotLeaderForPartition then ''kafka server: Tried to send a message to a replica that is not the leader for some partition. Your metadata is out of date''
      else if err = ErrRequestTimedOut then ''kafka server: Request exceeded the user-specified time limit in the request''
      else if err = ErrBrokerNotAvailable then ''kafka server: Broker not available. Not a client facing error, we should never receive this!!!''
      else if err = ErrReplicaNotAvailable then ''kafka server: Replica information not available, one or more brokers are down''
      else if err = ErrMessageSizeTooLarge then ''kafka server: Message was too large, server rejected it to avoid allocation error''
      else if err = ErrStaleControllerEpochCode then ''kafka server: StaleControllerEpochCode (internal error code for broker-to-broker communication)''
      else if err = ErrOffsetMetadataTooLarge then ''kafka server: Specified a string larger than the configured maximum for offset metadata''
      else if err = ErrNetworkException then ''kafka server: The server disconnected before a response was received''
      else if err = ErrOffsetsLoadInProgress then ''kafka server: The broker is still loading offsets after a leader change for that offset's topic partition''
      else if err = ErrConsumerCoordinatorNotAvailable then ''kafka server: Offset's topic has not yet been created''
      else if err = ErrNotCoordinatorForConsumer then ''kafka server: Request was for a consumer group that is not coordinated by this broker''
      else if err = ErrInvalidTopic then ''kafka server: The request attempted to perform an operation on an invalid topic''
      else if err = ErrMessageSetSizeTooLarge then ''kafka server: The request included message batch larger than the configured segment size on the server''
      else if err = ErrNotEnoughReplicas then ''kafka server: Messages are rejected since there are fewer in-sync replicas than required''
      else if err = ErrNotEnoughReplicasAfterAppend then ''kafka server: Messages are written to the log, but to fewer in-sync replicas than required''
      else if err = ErrInvalidRequiredAcks then ''kafka server: The number of required acks is invalid (should be either -1, 0, or 1)''
      else if err = ErrIllegalGeneration then ''kafka server: The provided generation id is not the current generation''
      else if err = ErrInconsistentGroupProtocol then ''kafka server: The provider group protocol type is incompatible with the other members''
      else if err = ErrInvalidGroupId then ''kafka server: The provided group id was empty''
      else if err = ErrUnknownMemberId then ''kafka server: The provided member is not known in the current generation''
      else if err = ErrInvalidSessionTimeout then ''kafka server: The provided session timeout is outside the allowed range''
      else if err = ErrRebalanceInProgress then ''kafka server: A rebalance for the group is in progress. Please re-join the group''
      else if err = ErrInvalidCommitOffsetSize then ''kafka server: The provided commit metadata was too large''
      else if err = ErrTopicAuthorizationFailed then ''kafka server: The client is not authorized to access this topic''
      else if err = ErrGroupAuthorizationFailed then ''kafka server: The client is not authorized to access this group''
      else if err = ErrClusterAuthorizationFailed then ''kafka server: The client is not authorized to send this request type''
      else if err = ErrInvalidTimestamp then ''kafka server: The timestamp of the message is out of acceptable range''
      else if err = ErrUnsupportedSASLMechanism then ''kafka server: The broker does not support the requested SASL mechanism''
      else if err = ErrIllegalSASLState then ''kafka server: Request is not valid given the current SASL state''
      else if err = ErrUnsupportedVersion then ''kafka server: The version of API is not supported''
      else if err = ErrTopicAlreadyExists then ''kafka server: Topic with this name already exists''
      else if err = ErrInvalidPartitions then ''kafka server: Number of partitions is invalid''
      else if err = ErrInvalidReplicationFactor then ''kafka server: Replication-factor is invalid''
      else if err = ErrInvalidReplicaAssignment then ''kafka server: Replica assignment is invalid''
      else if err = ErrInvalidConfig then ''kafka server: Configuration is invalid''
      else if err = ErrNotController then ''kafka server: This is not the correct controller for this cluster''
      else if err = ErrInvalidRequest then ''kafka server: This most likely occurs because of a request being malformed by the client library or the message was sent to an incompatible broker. See the broker logs for more details''
      else if err = ErrUnsupportedForMessageFormat then ''kafka server: The requested operation is not supported by the message format version''
      else if err = ErrPolicyViolation then ''kafka server: Request parameters do not satisfy the configured policy''
      else if err = ErrOutOfOrderSequenceNumber then ''kafka server: The broker received an out of order sequence number''
      else if err = ErrDuplicateSequenceNumber then ''kafka server: The broker received a duplicate sequence number''
      else if err = ErrInvalidProducerEpoch then ''kafka server: Producer attempted an operation with an old epoch''
      else if err = ErrInvalidTxnState then ''kafka server: The producer attempted a transactional operation in an invalid state''
      else if err = ErrInvalidProducerIDMapping then ''kafka server: The producer attempted to use a producer id which is not currently assigned to its transactional id''
      else if err = ErrInvalidTransactionTimeout then ''kafka server: The transaction timeout is larger than the maximum value allowed by the broker (as configured by max.transaction.timeout.ms)''
      else if err = ErrConcurrentTransactions then ''kafka server: The producer attempted to update a transaction while another concurrent operation on the same transaction was ongoing''
      else if err = ErrTransactionCoordinatorFenced then ''kafka server: The transaction coordinator sending a WriteTxnMarker is no longer the current coordinator for a given producer''
      else if err = ErrTransactionalIDAuthorizationFailed then ''kafka server: Transactional ID authorization failed''
      else if err = ErrSecurityDisabled then ''kafka server: Security features are disabled''
      else if err = ErrOperationNotAttempted then ''kafka server: The broker did not attempt to execute this operation''
      else if err = ErrKafkaStorageError then ''kafka server: Disk error when trying to access log file on the disk''
      else if err = ErrLogDirNotFound then ''kafka server: The specified log directory is not found in the broker config''
      else if err = ErrSASLAuthenticationFailed then ''kafka server: SASL Authentication failed''
      else if err = ErrUnknownProducerID then ''kafka server: The broker could not locate the producer metadata associated with the Producer ID''
      else if err = ErrReassignmentInProgress then ''kafka server: A partition reassignment is in progress''
      else if err = ErrDelegationTokenAuthDisabled then ''kafka server: Delegation Token feature is not enabled''
      else if err = ErrDelegationTokenNotFound then ''kafka server: Delegation Token is not found on server''
      else if err = ErrDelegationTokenOwnerMismatch then ''kafka server: Specified Principal is not valid Owner/Renewer''
      else if err = ErrDelegationTokenRequestNotAllowed then ''kafka server: Delegation Token requests are not allowed on PLAINTEXT/1-way SSL channels and on delegation token authenticated channels''
      else if err = ErrDelegationTokenAuthorizationFailed then ''kafka server: Delegation Token authorization failed''
      else if err = ErrDelegationTokenExpired then ''kafka server: Delegation Token is expired''
      else if err = ErrInvalidPrincipalType then ''kafka server: Supplied principalType is not supported''
      else if err = ErrNonEmptyGroup then ''kafka server: The group is not empty''
      else if err = ErrGroupIDNotFound then ''kafka server: The group id does not exist''
      else if err = ErrFetchSessionIDNotFound then ''kafka server: The fetch session ID was not found''
      else if err = ErrInvalidFetchSessionEpoch then ''kafka server: The fetch session epoch is invalid''
      else if err = ErrListenerNotFound then ''kafka server: There is no listener on the leader broker that matches the listener on which metadata request was processed''
      else if err = ErrTopicDeletionDisabled then ''kafka server: Topic deletion is disabled''
      else if err = ErrFencedLeaderEpoch then ''kafka server: The leader epoch in the request is older than the epoch on the broker''
      else if err = ErrUnknownLeaderEpoch then ''kafka server: The leader epoch in the request is newer than the epoch on the broker''
      else if err = ErrUnsupportedCompressionType then ''kafka server: The requesting client does not support the compression type of given partition''
      else if err = ErrStaleBrokerEpoch then ''kafka server: Broker epoch has changed''
      else if err = ErrOffsetNotAvailable then ''kafka server: The leader high watermark has not caught up from a recent leader election so the offsets cannot be guaranteed to be monotonically increasing''
      else if err = ErrMemberIdRequired then ''kafka server: The group member needs to have a valid member id before actually entering a consumer group''
      else if err = ErrPreferredLeaderNotAvailable then ''kafka server: The preferred leader was not available''
      else if err = ErrGroupMaxSizeReached then ''kafka server: Consumer group The consumer group has reached its max size. already has the configured maximum number of members''
      else if err = ErrFencedInstancedId then ''kafka server: The broker rejected this static consumer since another consumer with the same group.instance.id has registered with a different member.id''
      else if err = ErrEligibleLeadersNotAvailable then ''kafka server: Eligible topic partition leaders are not available''
      else if err = ErrElectionNotNeeded then ''kafka server: Leader election not needed for topic partition''
      else if err = ErrNoReassignmentInProgress then ''kafka server: No partition reassignment is in progress''
      else if err = ErrGroupSubscribedToTopic then ''kafka server: Deleting offsets of a topic is forbidden while the consumer group is actively subscribed to it''
      else if err = ErrInvalidRecord then ''kafka server: This record has failed the validation on broker and hence will be rejected''
      else if err = ErrUnstableOffsetCommit then ''kafka server: There are unstable offsets that need to be cleared''
      else ''Unknown error, how did this happen? Error code = '' @ Sprint_d (sint err))"

text \<open>The case labels of the switch, in the order of the source.\<close>

definition KError_cases :: "KError list" where
  "KError_cases =
     [ErrNoError, ErrUnknown, ErrOffsetOutOfRange, ErrInvalidMessage,
      ErrUnknownTopicOrPartition, ErrInvalidMessageSize, ErrLeaderNotAvailable,
      ErrNotLeaderForPartition, ErrRequestTimedOut, ErrBrokerNotAvailable,
      ErrReplicaNotAvailable, ErrMessageSizeTooLarge, ErrStaleControllerEpochCode,
      ErrOffsetMetadataTooLarge, ErrNetworkException, ErrOffsetsLoadInProgress,
      ErrConsumerCoordinatorNotAvailable, ErrNotCoordinatorForConsumer,
      ErrInvalidTopic, ErrMessageSetSizeTooLarge, ErrNotEnoughReplicas,
      ErrNotEnoughReplicasAfterAppend, ErrInvalidRequiredAcks, ErrIllegalGeneration,
      ErrInconsistentGroupProtocol, ErrInvalidGroupId, ErrUnknownMemberId,
      ErrInvalidSessionTimeout, ErrRebalanceInProgress, ErrInvalidCommitOffsetSize,
      ErrTopicAuthorizationFailed, ErrGroupAuthorizationFailed,
      ErrClusterAuthorizationFailed, ErrInvalidTimestamp,
      ErrUnsupportedSASLMechanism, ErrIllegalSASLState, ErrUnsupportedVersion,
      ErrTopicAlreadyExists, ErrInvalidPartitions, ErrInvalidReplicationFactor,
      ErrInvalidReplicaAssignment, ErrInvalidConfig, ErrNotController,
      ErrInvalidRequest, ErrUnsupportedForMessageFormat, ErrPolicyViolation,
      ErrOutOfOrderSequenceNumber, ErrDuplicateSequenceNumber,
      ErrInvalidProducerEpoch, ErrInvalidTxnState, ErrInvalidProducerIDMapping,
      ErrInvalidTransactionTimeout, ErrConcurrentTransactions,
      ErrTransactionCoordinatorFenced, ErrTransactionalIDAuthorizationFailed,
      ErrSecurityDisabled, ErrOperationNotAttempted, ErrKafkaStorageError,
      ErrLogDirNotFound, ErrSASLAuthenticationFailed, ErrUnknownProducerID,
      ErrReassignmentInProgress, ErrDelegationTokenAuthDisabled,
      ErrDelegationTokenNotFound, ErrDelegationTokenOwnerMismatch,
      ErrDelegationTokenRequestNotAllowed, ErrDelegationTokenAuthorizationFailed,
      ErrDelegationTokenExpired, ErrInvalidPrincipalType, ErrNonEmptyGroup,
      ErrGroupIDNotFound, ErrFetchSessionIDNotFound, ErrInvalidFetchSessionEpoch,
      ErrListenerNotFound, ErrTopicDeletionDisabled, ErrFencedLeaderEpoch,
      ErrUnknownLeaderEpoch, ErrUnsupportedCompressionType, ErrStaleBrokerEpoch,
      ErrOffsetNotAvailable, ErrMemberIdRequired, ErrPreferredLeaderNotAvailable,
      ErrGroupMaxSizeReached, ErrFencedInstancedId, ErrEligibleLeadersNotAvailable,
      ErrElectionNotNeeded, ErrNoReassignmentInProgress, ErrGroupSubscribedToTopic,
      ErrInvalidRecord, ErrUnstableOffsetCommit]"


section \<open>Error values\<close>

text \<open>
  Besides the code of \<^verbatim>\<open>errors.go\<close> two packages decide what wrapping and aggregation
  do: the standard library (\<^verbatim>\<open>errors.New\<close>, \<^verbatim>\<open>errors.Is\<close>, \<^verbatim>\<open>fmt.Sprintf\<close>) and
  \<^verbatim>\<open>github.com/hashicorp/go-multierror\<close> (\<^verbatim>\<open>Append\<close>, \<^verbatim>\<open>ErrorOrNil\<close>, \<^verbatim>\<open>Error\<close>,
  \<^verbatim>\<open>Unwrap\<close>, \<^verbatim>\<open>ListFormatFunc\<close>; version 1.1). Their functions are translated below
  next to an outline of their Go text.
\<close>

text \<open>
  A Go function value cannot be inspected, only compared with \<^verbatim>\<open>nil\<close> and called.
  The formatters that can stand in \<^verbatim>\<open>MultiErrorFormat\<close> or in the
  \<^verbatim>\<open>ErrorFormat\<close> field of an aggregate are therefore handles:
  \<^item> \<open>ListFormatFunc\<close>, the list formatter of the go-multierror library;
  \<^item> \<open>CondensedFormat\<close>, the function literal that initialises \<^verbatim>\<open>MultiErrorFormat\<close>
    (lines 70 to 83 of the source);
  \<^item> \<open>UserFormat n\<close>, any other function installed by the hosting application; what it
    computes is given by a table \<open>I :: nat \<Rightarrow> err list \<Rightarrow> string\<close> that every rendering
    function takes as a parameter.
  A nil function value is \<open>None\<close> of type \<open>format_func option\<close>.
\<close>

datatype format_func = ListFormatFunc | CondensedFormat | UserFormat nat

text \<open>
  The non-nil values of the interface type \<^verbatim>\<open>error\<close> that the file defines or builds;
  a nil \<^verbatim>\<open>error\<close> is \<open>None\<close> of type \<open>err option\<close>. Errors of other packages
  (with \<^verbatim>\<open>Is\<close> or \<^verbatim>\<open>Unwrap\<close> methods of their own) and nil pointers stored in an
  interface are outside the model.
  \<^item> \<open>ErrorString a s\<close>: the result of \<^verbatim>\<open>errors.New(s)\<close>, a pointer (address \<open>a\<close>) to a
    string; every call of \<^verbatim>\<open>errors.New\<close> yields a new address.
  \<^item> \<open>KErr c\<close>: a protocol error code.
  \<^item> \<open>PacketEncodingError\<close>, \<open>PacketDecodingError\<close>, \<open>ConfigurationError\<close>: the three
    detail-carrying errors, each a single string.
  \<^item> \<open>SentinelError s w\<close>: a \<^verbatim>\<open>sentinelError\<close> struct with its two fields.
  \<^item> \<open>MultiError a es f\<close>: a pointer (address \<open>a\<close>) to a \<^verbatim>\<open>multierror.Error\<close> with
    the fields \<^verbatim>\<open>Errors\<close> and \<^verbatim>\<open>ErrorFormat\<close>.
\<close>

datatype err =
    ErrorString nat string
  | KErr KError
  | PacketEncodingError string
  | PacketDecodingError string
  | ConfigurationError string
  | SentinelError "err option" "err option"
  | MultiError nat "err list" "format_func option"

text \<open>The sentinel catalog: one \<^verbatim>\<open>errors.New\<close> value per variable, each at its own address.\<close>

definition ErrOutOfBrokers :: err where
  "ErrOutOfBrokers = ErrorString 1 ''kafka: client has run out of available brokers to talk to''"

definition ErrBrokerNotFound :: err where
  "ErrBrokerNotFound = ErrorString 2 ''kafka: broker for ID is not found''"

definition ErrClosedClient :: err where
  "ErrClosedClient = ErrorString 3 ''kafka: tried to use a client that was closed''"

definition ErrIncompleteResponse :: err where
  "ErrIncompleteResponse = ErrorString 4 ''kafka: response did not contain all the expected topic/partition blocks''"

definition ErrInvalidPartition :: err where
  "ErrInvalidPartition = ErrorString 5 ''kafka: partitioner returned an invalid partition index''"

definition ErrAlreadyConnected :: err where
  "ErrAlreadyConnected = ErrorString 6 ''kafka: broker connection already initiated''"

definition ErrNotConnected :: err where
  "ErrNotConnected = ErrorString 7 ''kafka: broker not connected''"

definition ErrInsufficientData :: err where
  "ErrInsufficientData = ErrorString 8 ''kafka: insufficient data to decode packet, more bytes expected''"

definition ErrShuttingDown :: err where
  "ErrShuttingDown = ErrorString 9 ''kafka: message received by producer in process of shutting down''"

definition ErrMessageTooLarge :: err where
  "ErrMessageTooLarge = ErrorString 10 ''kafka: message is larger than Consumer.Fetch.Max''"

definition ErrConsumerOffsetNotAdvanced :: err where
  "ErrConsumerOffsetNotAdvanced = ErrorString 11 ''kafka: consumer offset was not advanced after a RecordBatch''"

definition ErrControllerNotAvailable :: err where
  "ErrControllerNotAvailable = ErrorString 12 ''kafka: controller is not available''"

definition ErrNoTopicsToUpdateMetadata :: err where
  "ErrNoTopicsToUpdateMetadata = ErrorString 13 ''kafka: no specific topics to update metadata''"

definition ErrUnknownScramMechanism :: err where
  "ErrUnknownScramMechanism = ErrorString 14 ''kafka: unknown SCRAM mechanism provided''"

definition ErrReassignPartitions :: err where
  "ErrReassignPartitions = ErrorString 15 ''failed to reassign partitions for topic''"

definition ErrDeleteRecords :: err where
  "ErrDeleteRecords = ErrorString 16 ''kafka server: failed to delete records''"


subsection \<open>Identity\<close>

text \<open>
  Go's \<^verbatim>\<open>==\<close> on two non-nil \<^verbatim>\<open>error\<close> values: the dynamic types must agree; two
  pointers are equal when they are the same address, whatever they point to; integers
  and strings are compared by value; structs field by field, where a nil field equals
  only a nil field.
\<close>

fun go_eq :: "err \<Rightarrow> err \<Rightarrow> bool"
  and go_eq_opt :: "err option \<Rightarrow> err option \<Rightarrow> bool" where
  "go_eq (ErrorString a s) (ErrorString b t) = (a = b)"
| "go_eq (KErr c) (KErr d) = (c = d)"
| "go_eq (PacketEncodingError s) (PacketEncodingError t) = (s = t)"
| "go_eq (PacketDecodingError s) (PacketDecodingError t) = (s = t)"
| "go_eq (ConfigurationError s) (ConfigurationError t) = (s = t)"
| "go_eq (SentinelError s w) (SentinelError s' w') = (go_eq_opt s s' \<and> go_eq_opt w w')"
| "go_eq (MultiError a es f) (MultiError b es' f') = (a = b)"
| "go_eq _ _ = False"
| "go_eq_opt None None = True"
| "go_eq_opt (Some x) (Some y) = go_eq x y"
| "go_eq_opt _ _ = False"

subsection \<open>Rendering\<close>

text \<open>
  The two built-in formatters, on the texts that \<^verbatim>\<open>Error()\<close> gives for the members
  (both reach the members only through \<^verbatim>\<open>%s\<close>, which calls \<^verbatim>\<open>Error()\<close>).

  \<open>CondensedFormat_text\<close> is the function literal of lines 70 to 83: a single member
  is returned alone; otherwise every member becomes a point \<^verbatim>\<open>"* <text>"\<close> and the
  result is \<^verbatim>\<open>"<n> errors occurred:\n\t" + join(points, "\n\t") + "\n"\<close>.

  \<open>ListFormatFunc_text\<close> is \<^verbatim>\<open>multierror.ListFormatFunc\<close> of the library: a single
  member gives \<^verbatim>\<open>"1 error occurred:\n\t* <text>\n\n"\<close>, otherwise the same list as above
  with two newlines at the end. In outline:
  \<^verbatim>\<open>
  func ListFormatFunc(es []error) string {
      if len(es) == 1 { return fmt.Sprintf("1 error occurred:\n\t* %s\n\n", es[0]) }
      points := make([]string, len(es))
      for i, err := range es { points[i] = fmt.Sprintf("* %s", err) }
      return fmt.Sprintf("%d errors occurred:\n\t%s\n\n", len(es), strings.Join(points, "\n\t"))
  }
  \<close>
\<close>

definition CondensedFormat_text :: "string list \<Rightarrow> string" where
  "CondensedFormat_text es =
     (if length es = 1 then es ! 0
      else let points = map (\<lambda>e. ''* '' @ e) es
           in Sprint_d (int (length es)) @ '' errors occurred:'' @ [newline, tab]
              @ Join points [newline, tab] @ [newline])"

definition ListFormatFunc_text :: "string list \<Rightarrow> string" where
  "ListFormatFunc_text es =
     (if length es = 1 then ''1 error occurred:'' @ [newline, tab] @ ''* '' @ es ! 0 @ [newline, newline]
      else let points = map (\<lambda>e. ''* '' @ e) es
           in Sprint_d (int (length es)) @ '' errors occurred:'' @ [newline, tab]
              @ Join points [newline, tab] @ [newline, newline])"

text \<open>
  \<^verbatim>\<open>Error()\<close> of every error value.
  \<^item> \<^verbatim>\<open>sentinelError.Error\<close> (lines 90 to 96): \<^verbatim>\<open>"%s: %v"\<close> of the sentinel and the
    cause when the cause is not nil, else \<^verbatim>\<open>"%s"\<close> of the sentinel. Both verbs call
    \<^verbatim>\<open>Error()\<close> on a non-nil operand; \<^verbatim>\<open>%s\<close> of a nil interface prints
    \<^verbatim>\<open>%!s(<nil>)\<close>.
  \<^item> \<^verbatim>\<open>(*multierror.Error).Error\<close>: the formatter is the field \<^verbatim>\<open>ErrorFormat\<close>, or
    \<^verbatim>\<open>ListFormatFunc\<close> when the field is nil; it is called on the member list.
    In outline:
  \<^verbatim>\<open>
  func (e *Error) Error() string {
      fn := e.ErrorFormat
      if fn == nil { fn = ListFormatFunc }
      return fn(e.Errors)
  }
  \<close>
  The method reads no package-level variable: the text of an aggregate depends on its
  two fields only.
\<close>

fun Error :: "(nat \<Rightarrow> err list \<Rightarrow> string) \<Rightarrow> err \<Rightarrow> string" where
  "Error I (ErrorString a s) = s"
| "Error I (KErr c) = KError_Error c"
| "Error I (PacketEncodingError info) = ''kafka: error encoding packet: '' @ info"
| "Error I (PacketDecodingError info) = ''kafka: error decoding packet: '' @ info"
| "Error I (ConfigurationError s) = ''kafka: invalid configuration ('' @ s @ '')''"
| "Error I (SentinelError s w) =
     (let sentinel_text = (case s of None \<Rightarrow> ''%!s(<nil>)'' | Some s' \<Rightarrow> Error I s')
      in case w of
           Some w' \<Rightarrow> sentinel_text @ '': '' @ Error I w'
         | None \<Rightarrow> sentinel_text)"
| "Error I (MultiError a es f) =
     (let fn = (case f of None \<Rightarrow> ListFormatFunc | Some g \<Rightarrow> g)
      in case fn of
           ListFormatFunc \<Rightarrow> ListFormatFunc_text (map (Error I) es)
         | CondensedFormat \<Rightarrow> CondensedFormat_text (map (Error I) es)
         | UserFormat n \<Rightarrow> I n es)"

text \<open>
  The formatter that \<^verbatim>\<open>(*multierror.Error).Error\<close> calls for a given field value, and the
  call of a formatter on a list of errors: the text that a policy yields on that list.
\<close>

definition effective_format :: "format_func option \<Rightarrow> format_func" where
  "effective_format f = (case f of None \<Rightarrow> ListFormatFunc | Some g \<Rightarrow> g)"

definition call_format :: "(nat \<Rightarrow> err list \<Rightarrow> string) \<Rightarrow> format_func \<Rightarrow> err list \<Rightarrow> string" where
  "call_format I fn es =
     (case fn of
        ListFormatFunc \<Rightarrow> ListFormatFunc_text (map (Error I) es)
      | CondensedFormat \<Rightarrow> CondensedFormat_text (map (Error I) es)
      | UserFormat n \<Rightarrow> I n es)"

text \<open>
  The table of user formatters of a program that installs none: no handle
  \<open>UserFormat n\<close> is ever called there, so the entries do not matter.
\<close>

definition no_user_formats :: "nat \<Rightarrow> err list \<Rightarrow> string" where
  "no_user_formats n es = ''''"

section \<open>Aggregation\<close>

text \<open>
  The package-level variable \<^verbatim>\<open>MultiErrorFormat\<close> is the only mutable state of the
  file; \<open>init_globals\<close> is its value after package initialisation.
\<close>

record globals =
  MultiErrorFormat :: "format_func option"

definition init_globals :: globals where
  "init_globals = \<lparr>MultiErrorFormat = Some CondensedFormat\<rparr>"

text \<open>The struct \<^verbatim>\<open>multierror.Error\<close> of the library, as \<^verbatim>\<open>multiError\<close> fills it.\<close>

record multierror_Error =
  Errors :: "err list"
  ErrorFormat :: "format_func option"

text \<open>
  The method \<^verbatim>\<open>(*multierror.Error).Error\<close> once more, statement by statement, with the
  call through the function value made explicit: calling a nil function value panics,
  which is the result \<open>None\<close>. The method reads the field into \<^verbatim>\<open>fn\<close>, replaces a
  nil \<^verbatim>\<open>fn\<close> by \<^verbatim>\<open>ListFormatFunc\<close> and returns \<^verbatim>\<open>fn(e.Errors)\<close>.
\<close>

definition call_func ::
  "(nat \<Rightarrow> err list \<Rightarrow> string) \<Rightarrow> format_func option \<Rightarrow> err list \<Rightarrow> string option" where
  "call_func I fn es = (case fn of None \<Rightarrow> None | Some f \<Rightarrow> Some (call_format I f es))"

definition multierror_Error_method ::
  "(nat \<Rightarrow> err list \<Rightarrow> string) \<Rightarrow> multierror_Error \<Rightarrow> string option" where
  "multierror_Error_method I e =
     (let fn = ErrorFormat e;
          fn = (if fn = None then Some ListFormatFunc else fn)
      in call_func I fn (Errors e))"

text \<open>
  \<^verbatim>\<open>multierror.Append(nil, errs...)\<close>. With a nil first argument the library allocates
  an empty \<^verbatim>\<open>Error\<close> and runs its flattening loop over the arguments: a nil argument is
  skipped, the members of an argument that is itself a \<^verbatim>\<open>*multierror.Error\<close> are
  appended one by one (one level, not recursively), any other argument is appended as
  it is. \<open>Append_loop\<close> is that loop with the member list built so far;
  \<open>isMultiError\<close> is the type test of its type switch. In outline, for a first
  argument that is nil (and then again for the fresh \<^verbatim>\<open>&Error{}\<close>):
  \<^verbatim>\<open>
  func Append(err error, errs ...error) *Error {
      switch err := err.(type) {
      case *Error:
          for _, e := range errs {
              switch e := e.(type) {
              case *Error:
                  if e != nil { err.Errors = append(err.Errors, e.Errors...) }
              default:
                  if e != nil { err.Errors = append(err.Errors, e) }
              }
          }
          return err
      default:
          newErrs := make([]error, 0, len(errs)+1)
          if err != nil { newErrs = append(newErrs, err) }
          newErrs = append(newErrs, errs...)
          return Append(&Error{}, newErrs...)
      }
  }
  \<close>
\<close>

fun isMultiError :: "err \<Rightarrow> bool" where
  "isMultiError (MultiError a es f) = True"
| "isMultiError e = False"

fun Append_loop :: "err list \<Rightarrow> err option list \<Rightarrow> err list" where
  "Append_loop acc [] = acc"
| "Append_loop acc (None # errs) = Append_loop acc errs"
| "Append_loop acc (Some (MultiError a es f) # errs) = Append_loop (acc @ es) errs"
| "Append_loop acc (Some e # errs) = Append_loop (acc @ [e]) errs"

text \<open>
  What one entry of the argument list contributes to the member list, stated without
  the loop: nothing for nil, its members for an aggregate, itself otherwise. The loop
  is compared with the concatenation of these contributions in the order of the
  entries (lemma \<open>Append_loop_members\<close>).
\<close>

fun members_of :: "err option \<Rightarrow> err list" where
  "members_of None = []"
| "members_of (Some (MultiError a ms f)) = ms"
| "members_of (Some e) = [e]"

definition Append_nil :: "err option list \<Rightarrow> multierror_Error" where
  "Append_nil errs = \<lparr>Errors = Append_loop [] errs, ErrorFormat = None\<rparr>"

text \<open>
  \<^verbatim>\<open>(*multierror.Error).ErrorOrNil\<close>: nil when the member list is empty, otherwise the
  receiver itself, as an \<^verbatim>\<open>error\<close>; a single member is not taken out of the
  aggregate. The receiver is the struct at address \<open>a\<close>. In outline:
  \<^verbatim>\<open>
  func (e *Error) ErrorOrNil() error {
      if e == nil { return nil }
      if len(e.Errors) == 0 { return nil }
      return e
  }
  \<close>
\<close>

definition ErrorOrNil :: "nat \<Rightarrow> multierror_Error \<Rightarrow> err option" where
  "ErrorOrNil a e =
     (if length (Errors e) = 0 then None
      else Some (MultiError a (Errors e) (ErrorFormat e)))"

text \<open>
  \<^verbatim>\<open>multiError\<close> (lines 110 to 116). The parameter \<open>a\<close> is the address at which
  \<^verbatim>\<open>Append\<close> allocates the new aggregate.
\<close>

definition multiError :: "globals \<Rightarrow> nat \<Rightarrow> err option list \<Rightarrow> err option" where
  "multiError g a wrapped_errs =
     (let merr = Append_nil wrapped_errs;
          merr = (if MultiErrorFormat g \<noteq> None
                  then merr\<lparr>ErrorFormat := MultiErrorFormat g\<rparr>
                  else merr)
      in ErrorOrNil a merr)"

section \<open>Wrapping\<close>

record sentinelError =
  sentinel :: "err option"
  wrapped :: "err option"

text \<open>A \<^verbatim>\<open>sentinelError\<close> stored in an \<^verbatim>\<open>error\<close> interface.\<close>

definition as_error :: "sentinelError \<Rightarrow> err" where
  "as_error e = SentinelError (sentinel e) (wrapped e)"

text \<open>\<^verbatim>\<open>Wrap\<close> (lines 106 to 108).\<close>

definition Wrap :: "globals \<Rightarrow> nat \<Rightarrow> err option \<Rightarrow> err option list \<Rightarrow> sentinelError" where
  "Wrap g a sentinel_arg wrapped_errs =
     \<lparr>sentinel = sentinel_arg, wrapped = multiError g a wrapped_errs\<rparr>"

text \<open>\<^verbatim>\<open>sentinelError.Error\<close> and \<^verbatim>\<open>sentinelError.Unwrap\<close> (lines 90 to 96, 102 to 104).\<close>

definition sentinelError_Error :: "(nat \<Rightarrow> err list \<Rightarrow> string) \<Rightarrow> sentinelError \<Rightarrow> string" where
  "sentinelError_Error I e = Error I (as_error e)"

definition sentinelError_Unwrap :: "sentinelError \<Rightarrow> err option" where
  "sentinelError_Unwrap e = wrapped e"

subsection \<open>The identity test\<close>

text \<open>
  \<^verbatim>\<open>errors.Is(err, target)\<close> of the standard library, for a non-nil target: a loop that
  \<^item> returns true when \<^verbatim>\<open>err == target\<close>,
  \<^item> returns true when \<^verbatim>\<open>err\<close> has a method \<^verbatim>\<open>Is\<close> and it accepts the target (only
    \<^verbatim>\<open>sentinelError\<close> has one here, lines 98 to 100),
  \<^item> replaces \<^verbatim>\<open>err\<close> by \<^verbatim>\<open>err.Unwrap()\<close> and returns false when that is nil or
    when there is no such method.
  \<^verbatim>\<open>(*multierror.Error).Unwrap\<close> returns nil for no member, the member for one member,
  and otherwise the member list as a value of the library's type \<^verbatim>\<open>chain\<close>. A chain is
  never equal to a target (it is a slice), its method \<^verbatim>\<open>Is\<close> runs \<^verbatim>\<open>errors.Is\<close>
  on its first element, and its \<^verbatim>\<open>Unwrap\<close> is the rest of the chain, or nil when one
  element is left. \<open>chain_Is_loop\<close> is the loop while \<^verbatim>\<open>err\<close> is a chain.
  In outline:
  \<^verbatim>\<open>
  func Is(err, target error) bool {
      if target == nil { return err == target }
      isComparable := reflectlite.TypeOf(target).Comparable()
      for {
          if isComparable && err == target { return true }
          if x, ok := err.(interface{ Is(error) bool }); ok && x.Is(target) { return true }
          if err = Unwrap(err); err == nil { return false }
      }
  }

  func (e *Error) Unwrap() error {
      if e == nil || len(e.Errors) == 0 { return nil }
      if len(e.Errors) == 1 { return e.Errors[0] }
      errs := make([]error, len(e.Errors))
      copy(errs, e.Errors)
      return chain(errs)
  }

  type chain []error
  func (e chain) Is(target error) bool { return errors.Is(e[0], target) }
  func (e chain) Unwrap() error {
      if len(e) == 1 { return nil }
      return e[1:]
  }
  \<close>
  Every type of the model is comparable, so \<^verbatim>\<open>isComparable\<close> is true for every target.
\<close>

fun errors_Is_loop :: "err \<Rightarrow> err \<Rightarrow> bool"
  and chain_Is_loop :: "err list \<Rightarrow> err \<Rightarrow> bool" where
  "errors_Is_loop (SentinelError s w) target =
     (go_eq (SentinelError s w) target
      \<or> ((case s of None \<Rightarrow> False | Some s' \<Rightarrow> errors_Is_loop s' target)
         \<or> (case w of None \<Rightarrow> False | Some w' \<Rightarrow> errors_Is_loop w' target))
      \<or> (case w of None \<Rightarrow> False | Some w' \<Rightarrow> errors_Is_loop w' target))"
| "errors_Is_loop (MultiError a es f) target =
     (go_eq (MultiError a es f) target
      \<or> (case es of
           [] \<Rightarrow> False
         | [e] \<Rightarrow> errors_Is_loop e target
         | _ \<Rightarrow> chain_Is_loop es target))"
| "errors_Is_loop (ErrorString a s) target = go_eq (ErrorString a s) target"
| "errors_Is_loop (KErr c) target = go_eq (KErr c) target"
| "errors_Is_loop (PacketEncodingError s) target = go_eq (PacketEncodingError s) target"
| "errors_Is_loop (PacketDecodingError s) target = go_eq (PacketDecodingError s) target"
| "errors_Is_loop (ConfigurationError s) target = go_eq (ConfigurationError s) target"
| "chain_Is_loop [] target = False"
| "chain_Is_loop (e # es) target =
     (errors_Is_loop e target \<or> (if es = [] then False else chain_Is_loop es target))"

text \<open>\<^verbatim>\<open>errors.Is\<close>: with a nil target the answer is whether \<^verbatim>\<open>err\<close> is nil too.\<close>

definition errors_Is :: "err option \<Rightarrow> err option \<Rightarrow> bool" where
  "errors_Is e target =
     (case target of
        None \<Rightarrow> e = None
      | Some t \<Rightarrow> (case e of None \<Rightarrow> False | Some e' \<Rightarrow> errors_Is_loop e' t))"

text \<open>\<^verbatim>\<open>sentinelError.Is\<close> (lines 98 to 100).\<close>

definition sentinelError_Is :: "sentinelError \<Rightarrow> err option \<Rightarrow> bool" where
  "sentinelError_Is e target = (errors_Is (sentinel e) target \<or> errors_Is (wrapped e) target)"


subsection \<open>The identity test as the specification words it\<close>

text \<open>
  The specification describes the identity test as a walk: the target is compared with
  the sentinel and with everything reachable through the cause, recursively, where a
  nested wrapped error is again walked through both its sentinel and its cause and an
  aggregate through each of its members. \<open>spec_reachable e\<close> lists what such a walk
  that starts at \<open>e\<close> meets, and \<open>spec_Is\<close> is the test in these words. It is
  compared with \<open>sentinelError_Is\<close>, the translation of the code.
\<close>

fun spec_reachable :: "err \<Rightarrow> err list" where
  "spec_reachable (SentinelError s w) =
     SentinelError s w
       # (case s of None \<Rightarrow> [] | Some s' \<Rightarrow> spec_reachable s')
       @ (case w of None \<Rightarrow> [] | Some w' \<Rightarrow> spec_reachable w')"
| "spec_reachable (MultiError a es f) = MultiError a es f # concat (map spec_reachable es)"
| "spec_reachable e = [e]"

definition spec_Is :: "err \<Rightarrow> err option \<Rightarrow> err \<Rightarrow> bool" where
  "spec_Is S cause T =
     (go_eq S T
      \<or> (case cause of None \<Rightarrow> False | Some c \<Rightarrow> list_ex (\<lambda>x. go_eq x T) (spec_reachable c)))"

section \<open>Properties of the decimal rendering\<close>

lemma digit_char_facts:
  assumes "d < 10"
  shows "digit_char d \<in> set ''0123456789''"
    and "(of_char (digit_char d) :: nat) = 48 + d"
    and "digit_char d = CHR ''0'' \<longleftrightarrow> d = 0"
proof -
  have d: "d = 0 \<or> d = 1 \<or> d = 2 \<or> d = 3 \<or> d = 4 \<or> d = 5 \<or> d = 6 \<or> d = 7 \<or> d = 8 \<or> d = 9"
    using assms by arith
  show "digit_char d \<in> set ''0123456789''" using d by (auto simp: digit_char_def)
  show "(of_char (digit_char d) :: nat) = 48 + d" using d by (auto simp: digit_char_def)
  show "digit_char d = CHR ''0'' \<longleftrightarrow> d = 0" using d by (auto simp: digit_char_def)
qed

lemma digits_value_snoc: "digits_value (ds @ [c]) = 10 * digits_value ds + (of_char c - 48)"
  by (simp add: digits_value_def)

lemma dec_nat_nonempty: "dec_nat n \<noteq> []"
  by (subst dec_nat.simps) simp

lemma dec_nat_digits: "list_all (\<lambda>ch. ch \<in> set ''0123456789'') (dec_nat n)"
proof (induction n rule: dec_nat.induct)
  case (1 n)
  show ?case
  proof (cases "n < 10")
    case True
    then show ?thesis using digit_char_facts(1) [of n] by (subst dec_nat.simps) simp
  next
    case False
    then show ?thesis
      using "1" digit_char_facts(1) [of "n mod 10"] by (subst dec_nat.simps) simp
  qed
qed

lemma dec_nat_value: "digits_value (dec_nat n) = n"
proof (induction n rule: dec_nat.induct)
  case (1 n)
  show ?case
  proof (cases "n < 10")
    case True
    then show ?thesis
      using digit_char_facts(2) [of n] by (subst dec_nat.simps) (simp add: digits_value_def)
  next
    case False
    then have "digits_value (dec_nat (n div 10)) = n div 10" using "1" by simp
    then show ?thesis
      using False digit_char_facts(2) [of "n mod 10"]
      by (subst dec_nat.simps) (simp add: digits_value_snoc)
  qed
qed

lemma dec_nat_head: "dec_nat n = ''0'' \<or> hd (dec_nat n) \<noteq> CHR ''0''"
proof (induction n rule: dec_nat.induct)
  case (1 n)
  show ?case
  proof (cases "n < 10")
    case True
    then show ?thesis
      using digit_char_facts(3) [of n] by (subst (1 2) dec_nat.simps) (auto simp: digit_char_def)
  next
    case False
    have "dec_nat (n div 10) \<noteq> ''0''"
    proof
      assume "dec_nat (n div 10) = ''0''"
      then have "digits_value ''0'' = n div 10" using dec_nat_value [of "n div 10"] by simp
      then show False using False by (simp add: digits_value_def)
    qed
    then have "hd (dec_nat (n div 10)) \<noteq> CHR ''0''" using "1" False by simp
    then show ?thesis
      using False dec_nat_nonempty [of "n div 10"] by (subst (1 2) dec_nat.simps) simp
  qed
qed

lemma dec_nat_decimal_numeral: "decimal_numeral (dec_nat n) n"
  using dec_nat_nonempty dec_nat_digits dec_nat_head dec_nat_value
  by (simp add: decimal_numeral_def)

lemma Sprint_d_sign_digits:
  "Sprint_d i = (if i < 0 then ''-'' else '''') @ dec_nat (nat \<bar>i\<bar>)"
  by (simp add: Sprint_d_def)

section \<open>Properties of the code table\<close>

lemma if_nonempty: "x \<noteq> [] \<Longrightarrow> y \<noteq> [] \<Longrightarrow> (if b then x else y) \<noteq> []"
  by simp

lemma KError_Error_nonempty: "KError_Error c \<noteq> []"
  unfolding KError_Error_def by (intro if_nonempty) simp_all

lemma KError_cases_range:
  assumes "k \<in> set KError_cases"
  shows "- 1 \<le> sint k \<and> sint k \<le> 88"
  using assms unfolding KError_cases_def by auto

lemma KError_cases_cover:
  assumes "- 1 \<le> sint k" and "sint k \<le> 88"
  shows "k \<in> set KError_cases"
proof -
  have "sint k \<in> set [- 1 .. 88]" using assms by simp
  then have "word_of_int (sint k) \<in> set (map word_of_int [- 1 .. 88] :: KError list)"
    by (metis image_eqI list.set_map)
  then have "k \<in> set (map word_of_int [- 1 .. 88] :: KError list)" by simp
  then show ?thesis
    unfolding KError_cases_def by (simp add: upto.simps, blast)
qed

lemma KError_cases_iff: "k \<in> set KError_cases \<longleftrightarrow> - 1 \<le> sint k \<and> sint k \<le> 88"
  using KError_cases_range KError_cases_cover by blast

lemma KError_Error_fallback:
  assumes "c \<notin> set KError_cases"
  shows "KError_Error c = ''Unknown error, how did this happen? Error code = '' @ Sprint_d (sint c)"
  using assms unfolding KError_cases_def KError_Error_def by simp

lemmas Sprint_d_eval = Sprint_d_def dec_nat.simps digit_char_def

lemma KError_Error_arms:
  "KError_Error ErrNoError = ''kafka server: Not an error, why are you printing me?''"
  "KError_Error ErrUnknown = ''kafka server: Unexpected (unknown?) server error''"
  "KError_Error ErrOffsetOutOfRange = ''kafka server: The requested offset is outside the range of offsets maintained by the server for the given topic/partition''"
  "KError_Error ErrInvalidMessage = ''kafka server: Message contents does not match its CRC''"
  "KError_Error ErrUnknownTopicOrPartition = ''kafka server: Request was for a topic or partition that does not exist on this broker''"
  "KError_Error ErrInvalidMessageSize = ''kafka server: The message has a negative size''"
  "KError_Error ErrLeaderNotAvailable = ''kafka server: In the middle of a leadership election, there is currently no leader for this partition and hence it is unavailable for writes''"
  "KError_Error ErrNotLeaderForPartition = ''kafka server: Tried to send a message to a replica that is not the leader for some partition. Your metadata is out of date''"
  "KError_Error ErrRequestTimedOut = ''kafka server: Request exceeded the user-specified time limit in the request''"
  "KError_Error ErrBrokerNotAvailable = ''kafka server: Broker not available. Not a client facing error, we should never receive this!!!''"
  "KError_Error ErrReplicaNotAvailable = ''kafka server: Replica information not available, one or more brokers are down''"
  "KError_Error ErrMessageSizeTooLarge = ''kafka server: Message was too large, server rejected it to avoid allocation error''"
  "KError_Error ErrStaleControllerEpochCode = ''kafka server: StaleControllerEpochCode (internal error code for broker-to-broker communication)''"
  "KError_Error ErrOffsetMetadataTooLarge = ''kafka server: Specified a string larger than the configured maximum for offset metadata''"
  "KError_Error ErrNetworkException = ''kafka server: The server disconnected before a response was received''"
  "KError_Error ErrOffsetsLoadInProgress = ''kafka server: The broker is still loading offsets after a leader change for that offset's topic partition''"
  "KError_Error ErrConsumerCoordinatorNotAvailable = ''kafka server: Offset's topic has not yet been created''"
  "KError_Error ErrNotCoordinatorForConsumer = ''kafka server: Request was for a consumer group that is not coordinated by this broker''"
  "KError_Error ErrInvalidTopic = ''kafka server: The request attempted to perform an operation on an invalid topic''"
  "KError_Error ErrMessageSetSizeTooLarge = ''kafka server: The request included message batch larger than the configured segment size on the server''"
  "KError_Error ErrNotEnoughReplicas = ''kafka server: Messages are rejected since there are fewer in-sync replicas than required''"
  "KError_Error ErrNotEnoughReplicasAfterAppend = ''kafka server: Messages are written to the log, but to fewer in-sync replicas than required''"
  "KError_Error ErrInvalidRequiredAcks = ''kafka server: The number of required acks is invalid (should be either -1, 0, or 1)''"
  "KError_Error ErrIllegalGeneration = ''kafka server: The provided generation id is not the current generation''"
  "KError_Error ErrInconsistentGroupProtocol = ''kafka server: The provider group protocol type is incompatible with the other members''"
  "KError_Error ErrInvalidGroupId = ''kafka server: The provided group id was empty''"
  "KError_Error ErrUnknownMemberId = ''kafka server: The provided member is not known in the current generation''"
  "KError_Error ErrInvalidSessionTimeout = ''kafka server: The provided session timeout is outside the allowed range''"
  "KError_Error ErrRebalanceInProgress = ''kafka server: A rebalance for the group is in progress. Please re-join the group''"
  "KError_Error ErrInvalidCommitOffsetSize = ''kafka server: The provided commit metadata was too large''"
  "KError_Error ErrTopicAuthorizationFailed = ''kafka server: The client is not authorized to access this topic''"
  "KError_Error ErrGroupAuthorizationFailed = ''kafka server: The client is not authorized to access this group''"
  "KError_Error ErrClusterAuthorizationFailed = ''kafka server: The client is not authorized to send this request type''"
  "KError_Error ErrInvalidTimestamp = ''kafka server: The timestamp of the message is out of acceptable range''"
  "KError_Error ErrUnsupportedSASLMechanism = ''kafka server: The broker does not support the requested SASL mechanism''"
  "KError_Error ErrIllegalSASLState = ''kafka server: Request is not valid given the current SASL state''"
  "KError_Error ErrUnsupportedVersion = ''kafka server: The version of API is not supported''"
  "KError_Error ErrTopicAlreadyExists = ''kafka server: Topic with this name already exists''"
  "KError_Error ErrInvalidPartitions = ''kafka server: Number of partitions is invalid''"
  "KError_Error ErrInvalidReplicationFactor = ''kafka server: Replication-factor is invalid''"
  "KError_Error ErrInvalidReplicaAssignment = ''kafka server: Replica assignment is invalid''"
  "KError_Error ErrInvalidConfig = ''kafka server: Configuration is invalid''"
  "KError_Error ErrNotController = ''kafka server: This is not the correct controller for this cluster''"
  "KError_Error ErrInvalidRequest = ''kafka server: This most likely occurs because of a request being malformed by the client library or the message was sent to an incompatible broker. See the broker logs for more details''"
  "KError_Error ErrUnsupportedForMessageFormat = ''kafka server: The requested operation is not supported by the message format version''"
  "KError_Error ErrPolicyViolation = ''kafka server: Request parameters do not satisfy the configured policy''"
  "KError_Error ErrOutOfOrderSequenceNumber = ''kafka server: The broker received an out of order sequence number''"
  "KError_Error ErrDuplicateSequenceNumber = ''kafka server: The broker received a duplicate sequence number''"
  "KError_Error ErrInvalidProducerEpoch = ''kafka server: Producer attempted an operation with an old epoch''"
  "KError_Error ErrInvalidTxnState = ''kafka server: The producer attempted a transactional operation in an invalid state''"
  "KError_Error ErrInvalidProducerIDMapping = ''kafka server: The producer attempted to use a producer id which is not currently assigned to its transactional id''"
  "KError_Error ErrInvalidTransactionTimeout = ''kafka server: The transaction timeout is larger than the maximum value allowed by the broker (as configured by max.transaction.timeout.ms)''"
  "KError_Error ErrConcurrentTransactions = ''kafka server: The producer attempted to update a transaction while another concurrent operation on the same transaction was ongoing''"
  "KError_Error ErrTransactionCoordinatorFenced = ''kafka server: The transaction coordinator sending a WriteTxnMarker is no longer the current coordinator for a given producer''"
  "KError_Error ErrTransactionalIDAuthorizationFailed = ''kafka server: Transactional ID authorization failed''"
  "KError_Error ErrSecurityDisabled = ''kafka server: Security features are disabled''"
  "KError_Error ErrOperationNotAttempted = ''kafka server: The broker did not attempt to execute this operation''"
  "KError_Error ErrKafkaStorageError = ''kafka server: Disk error when trying to access log file on the disk''"
  "KError_Error ErrLogDirNotFound = ''kafka server: The specified log directory is not found in the broker config''"
  "KError_Error ErrSASLAuthenticationFailed = ''kafka server: SASL Authentication failed''"
  "KError_Error ErrUnknownProducerID = ''kafka server: The broker could not locate the producer metadata associated with the Producer ID''"
  "KError_Error ErrReassignmentInProgress = ''kafka server: A partition reassignment is in progress''"
  "KError_Error ErrDelegationTokenAuthDisabled = ''kafka server: Delegation Token feature is not enabled''"
  "KError_Error ErrDelegationTokenNotFound = ''kafka server: Delegation Token is not found on server''"
  "KError_Error ErrDelegationTokenOwnerMismatch = ''kafka server: Specified Principal is not valid Owner/Renewer''"
  "KError_Error ErrDelegationTokenRequestNotAllowed = ''kafka server: Delegation Token requests are not allowed on PLAINTEXT/1-way SSL channels and on delegation token authenticated channels''"
  "KError_Error ErrDelegationTokenAuthorizationFailed = ''kafka server: Delegation Token authorization failed''"
  "KError_Error ErrDelegationTokenExpired = ''kafka server: Delegation Token is expired''"
  "KError_Error ErrInvalidPrincipalType = ''kafka server: Supplied principalType is not supported''"
  "KError_Error ErrNonEmptyGroup = ''kafka server: The group is not empty''"
  "KError_Error ErrGroupIDNotFound = ''kafka server: The group id does not exist''"
  "KError_Error ErrFetchSessionIDNotFound = ''kafka server: The fetch session ID was not found''"
  "KError_Error ErrInvalidFetchSessionEpoch = ''kafka server: The fetch session epoch is invalid''"
  "KError_Error ErrListenerNotFound = ''kafka server: There is no listener on the leader broker that matches the listener on which metadata request was processed''"
  "KError_Error ErrTopicDeletionDisabled = ''kafka server: Topic deletion is disabled''"
  "KError_Error ErrFencedLeaderEpoch = ''kafka server: The leader epoch in the request is older than the epoch on the broker''"
  "KError_Error ErrUnknownLeaderEpoch = ''kafka server: The leader epoch in the request is newer than the epoch on the broker''"
  "KError_Error ErrUnsupportedCompressionType = ''kafka server: The requesting client does not support the compression type of given partition''"
  "KError_Error ErrStaleBrokerEpoch = ''kafka server: Broker epoch has changed''"
  "KError_Error ErrOffsetNotAvailable = ''kafka server: The leader high watermark has not caught up from a recent leader election so the offsets cannot be guaranteed to be monotonically increasing''"
  "KError_Error ErrMemberIdRequired = ''kafka server: The group member needs to have a valid member id before actually entering a consumer group''"
  "KError_Error ErrPreferredLeaderNotAvailable = ''kafka server: The preferred leader was not available''"
  "KError_Error ErrGroupMaxSizeReached = ''kafka server: Consumer group The consumer group has reached its max size. already has the configured maximum number of members''"
  "KError_Error ErrFencedInstancedId = ''kafka server: The broker rejected this static consumer since another consumer with the same group.instance.id has registered with a different member.id''"
  "KError_Error ErrEligibleLeadersNotAvailable = ''kafka server: Eligible topic partition leaders are not available''"
  "KError_Error ErrElectionNotNeeded = ''kafka server: Leader election not needed for topic partition''"
  "KError_Error ErrNoReassignmentInProgress = ''kafka server: No partition reassignment is in progress''"
  "KError_Error ErrGroupSubscribedToTopic = ''kafka server: Deleting offsets of a topic is forbidden while the consumer group is actively subscribed to it''"
  "KError_Error ErrInvalidRecord = ''kafka server: This record has failed the validation on broker and hence will be rejected''"
  "KError_Error ErrUnstableOffsetCommit = ''kafka server: There are unstable offsets that need to be cleared''"
  by (simp_all add: KError_Error_def)

lemma KError_Error_labels:
  "map KError_Error KError_cases =
        [''kafka server: Not an error, why are you printing me?'',
         ''kafka server: Unexpected (unknown?) server error'',
         ''kafka server: The requested offset is outside the range of offsets maintained by the server for the given topic/partition'',
         ''kafka server: Message contents does not match its CRC'',
         ''kafka server: Request was for a topic or partition that does not exist on this broker'',
         ''kafka server: The message has a negative size'',
         ''kafka server: In the middle of a leadership election, there is currently no leader for this partition and hence it is unavailable for writes'',
         ''kafka server: Tried to send a message to a replica that is not the leader for some partition. Your metadata is out of date'',
         ''kafka server: Request exceeded the user-specified time limit in the request'',
         ''kafka server: Broker not available. Not a client facing error, we should never receive this!!!'',
         ''kafka server: Replica information not available, one or more brokers are down'',
         ''kafka server: Message was too large, server rejected it to avoid allocation error'',
         ''kafka server: StaleControllerEpochCode (internal error code for broker-to-broker communication)'',
         ''kafka server: Specified a string larger than the configured maximum for offset metadata'',
         ''kafka server: The server disconnected before a response was received'',
         ''kafka server: The broker is still loading offsets after a leader change for that offset's topic partition'',
         ''kafka server: Offset's topic has not yet been created'',
         ''kafka server: Request was for a consumer group that is not coordinated by this broker'',
         ''kafka server: The request attempted to perform an operation on an invalid topic'',
         ''kafka server: The request included message batch larger than the configured segment size on the server'',
         ''kafka server: Messages are rejected since there are fewer in-sync replicas than required'',
         ''kafka server: Messages are written to the log, but to fewer in-sync replicas than required'',
         ''kafka server: The number of required acks is invalid (should be either -1, 0, or 1)'',
         ''kafka server: The provided generation id is not the current generation'',
         ''kafka server: The provider group protocol type is incompatible with the other members'',
         ''kafka server: The provided group id was empty'',
         ''kafka server: The provided member is not known in the current generation'',
         ''kafka server: The provided session timeout is outside the allowed range'',
         ''kafka server: A rebalance for the group is in progress. Please re-join the group'',
         ''kafka server: The provided commit metadata was too large'',
         ''kafka server: The client is not authorized to access this topic'',
         ''kafka server: The client is not authorized to access this group'',
         ''kafka server: The client is not authorized to send this request type'',
         ''kafka server: The timestamp of the message is out of acceptable range'',
         ''kafka server: The broker does not support the requested SASL mechanism'',
         ''kafka server: Request is not valid given the current SASL state'',
         ''kafka server: The version of API is not supported'',
         ''kafka server: Topic with this name already exists'',
         ''kafka server: Number of partitions is invalid'',
         ''kafka server: Replication-factor is invalid'',
         ''kafka server: Replica assignment is invalid'',
         ''kafka server: Configuration is invalid'',
         ''kafka server: This is not the correct controller for this cluster'',
         ''kafka server: This most likely occurs because of a request being malformed by the client library or the message was sent to an incompatible broker. See the broker logs for more details'',
         ''kafka server: The requested operation is not supported by the message format version'',
         ''kafka server: Request parameters do not satisfy the configured policy'',
         ''kafka server: The broker received an out of order sequence number'',
         ''kafka server: The broker received a duplicate sequence number'',
         ''kafka server: Producer attempted an operation with an old epoch'',
         ''kafka server: The producer attempted a transactional operation in an invalid state'',
         ''kafka server: The producer attempted to use a producer id which is not currently assigned to its transactional id'',
         ''kafka server: The transaction timeout is larger than the maximum value allowed by the broker (as configured by max.transaction.timeout.ms)'',
         ''kafka server: The producer attempted to update a transaction while another concurrent operation on the same transaction was ongoing'',
         ''kafka server: The transaction coordinator sending a WriteTxnMarker is no longer the current coordinator for a given producer'',
         ''kafka server: Transactional ID authorization failed'',
         ''kafka server: Security features are disabled'',
         ''kafka server: The broker did not attempt to execute this operation'',
         ''kafka server: Disk error when trying to access log file on the disk'',
         ''kafka server: The specified log directory is not found in the broker config'',
         ''kafka server: SASL Authentication failed'',
         ''kafka server: The broker could not locate the producer metadata associated with the Producer ID'',
         ''kafka server: A partition reassignment is in progress'',
         ''kafka server: Delegation Token feature is not enabled'',
         ''kafka server: Delegation Token is not found on server'',
         ''kafka server: Specified Principal is not valid Owner/Renewer'',
         ''kafka server: Delegation Token requests are not allowed on PLAINTEXT/1-way SSL channels and on delegation token authenticated channels'',
         ''kafka server: Delegation Token authorization failed'',
         ''kafka server: Delegation Token is expired'',
         ''kafka server: Supplied principalType is not supported'',
         ''kafka server: The group is not empty'',
         ''kafka server: The group id does not exist'',
         ''kafka server: The fetch session ID was not found'',
         ''kafka server: The fetch session epoch is invalid'',
         ''kafka server: There is no listener on the leader broker that matches the listener on which metadata request was processed'',
         ''kafka server: Topic deletion is disabled'',
         ''kafka server: The leader epoch in the request is older than the epoch on the broker'',
         ''kafka server: The leader epoch in the request is newer than the epoch on the broker'',
         ''kafka server: The requesting client does not support the compression type of given partition'',
         ''kafka server: Broker epoch has changed'',
         ''kafka server: The leader high watermark has not caught up from a recent leader election so the offsets cannot be guaranteed to be monotonically increasing'',
         ''kafka server: The group member needs to have a valid member id before actually entering a consumer group'',
         ''kafka server: The preferred leader was not available'',
         ''kafka server: Consumer group The consumer group has reached its max size. already has the configured maximum number of members'',
         ''kafka server: The broker rejected this static consumer since another consumer with the same group.instance.id has registered with a different member.id'',
         ''kafka server: Eligible topic partition leaders are not available'',
         ''kafka server: Leader election not needed for topic partition'',
         ''kafka server: No partition reassignment is in progress'',
         ''kafka server: Deleting offsets of a topic is forbidden while the consumer group is actively subscribed to it'',
         ''kafka server: This record has failed the validation on broker and hence will be rejected'',
         ''kafka server: There are unstable offsets that need to be cleared'']"
  by (simp only: KError_cases_def list.map KError_Error_arms)

lemma KError_Error_prefix:
  "\<forall>k \<in> set KError_cases. take 14 (KError_Error k) = ''kafka server: ''"
  unfolding KError_cases_def by (simp add: KError_Error_arms)


section \<open>Properties of the aggregation loop\<close>

lemma Append_loop_step:
  "Append_loop acc (x # es) = Append_loop (acc @ Append_loop [] [x]) es"
proof (cases x)
  case None
  then show ?thesis by simp
next
  case (Some e)
  then show ?thesis by (cases e) simp_all
qed

lemma Append_loop_acc: "Append_loop acc es = acc @ Append_loop [] es"
proof (induction es arbitrary: acc)
  case Nil
  then show ?case by simp
next
  case (Cons x es)
  have "Append_loop acc (x # es) = (acc @ Append_loop [] [x]) @ Append_loop [] es"
    using Append_loop_step [of acc x es] Cons.IH [of "acc @ Append_loop [] [x]"] by simp
  moreover have "Append_loop [] (x # es) = Append_loop [] [x] @ Append_loop [] es"
    using Append_loop_step [of "[]" x es] Cons.IH [of "Append_loop [] [x]"] by simp
  ultimately show ?case by simp
qed

lemma Append_loop_Cons: "Append_loop [] (x # es) = Append_loop [] [x] @ Append_loop [] es"
  using Append_loop_step [of "[]" x es] Append_loop_acc [of "Append_loop [] [x]" es] by simp

lemma Append_loop_plain: "\<not> isMultiError e \<Longrightarrow> Append_loop [] [Some e] = [e]"
  by (cases e) simp_all

lemma Append_loop_all_nil: "\<forall>e \<in> set es. e = None \<Longrightarrow> Append_loop [] es = []"
proof (induction es)
  case Nil
  then show ?case by simp
next
  case (Cons x es)
  then have "x = None" and "Append_loop [] es = []" by simp_all
  then show ?case using Append_loop_Cons [of x es] by simp
qed

lemma Append_loop_plain_list:
  assumes "\<forall>e \<in> set es. \<forall>x. e = Some x \<longrightarrow> \<not> isMultiError x"
  shows "Append_loop [] es = map the (filter (\<lambda>e. e \<noteq> None) es)"
  using assms
proof (induction es)
  case Nil
  then show ?case by simp
next
  case (Cons x es)
  then have IH: "Append_loop [] es = map the (filter (\<lambda>e. e \<noteq> None) es)" by simp
  show ?case
  proof (cases x)
    case None
    then show ?thesis using IH Append_loop_Cons [of x es] by simp
  next
    case (Some e)
    then have "\<not> isMultiError e" using Cons.prems by simp
    then have "Append_loop [] [x] = [e]" using Some Append_loop_plain by simp
    then show ?thesis using IH Some Append_loop_Cons [of x es] by simp
  qed
qed

lemma Append_loop_single: "Append_loop [] [x] = members_of x"
proof (cases x)
  case None
  then show ?thesis by simp
next
  case (Some e)
  then show ?thesis by (cases e) simp_all
qed

lemma Append_loop_members: "Append_loop [] es = concat (map members_of es)"
proof (induction es)
  case Nil
  then show ?case by simp
next
  case (Cons x es)
  then show ?case
    using Append_loop_Cons [of x es] Append_loop_single [of x] by simp
qed

lemma Join_bullets:
  "xs \<noteq> [] \<Longrightarrow> sep @ Join xs sep = concat (map (\<lambda>x. sep @ x) xs)"
  by (induction xs sep rule: Join.induct) simp_all

lemma Join_bullets_map:
  "ts \<noteq> [] \<Longrightarrow> sep @ Join (map f ts) sep = concat (map (\<lambda>t. sep @ f t) ts)"
  using Join_bullets [of "map f ts" sep] by (simp add: comp_def)

lemma CondensedFormat_text_bullets:
  assumes "2 \<le> length ts"
  shows "CondensedFormat_text ts =
      dec_nat (length ts) @ '' errors occurred:''
      @ concat (map (\<lambda>t. [newline, tab] @ ''* '' @ t) ts) @ [newline]"
proof -
  have ne: "ts \<noteq> []" using assms by auto
  have app: "(@) ''* '' = (\<lambda>e. CHR ''*'' # CHR '' '' # e)" by (rule ext) simp
  have j: "[newline, tab] @ Join (map (\<lambda>e. ''* '' @ e) ts) [newline, tab]
      = concat (map (\<lambda>t. [newline, tab] @ ''* '' @ t) ts)"
    by (rule Join_bullets_map [OF ne])
  have "CondensedFormat_text ts =
      dec_nat (length ts) @ '' errors occurred:''
      @ ([newline, tab] @ Join (map (\<lambda>e. ''* '' @ e) ts) [newline, tab]) @ [newline]"
    using assms by (simp add: CondensedFormat_text_def Sprint_d_def app)
  then show ?thesis by (simp only: j)
qed

lemma multiError_eq:
  "multiError g a es =
     (if Append_loop [] es = [] then None
      else Some (MultiError a (Append_loop [] es) (MultiErrorFormat g)))"
  by (cases "MultiErrorFormat g") (simp_all add: multiError_def Append_nil_def ErrorOrNil_def)

lemma Error_MultiError:
  "Error I (MultiError a es f) = call_format I (effective_format f) es"
  by (simp add: call_format_def effective_format_def split: option.splits format_func.splits)

section \<open>Properties of the identity test\<close>

lemma go_eq_refl: "go_eq e e"
proof (induction e)
  case (SentinelError s w)
  have "go_eq_opt s s" using SentinelError(1) by (cases s) simp_all
  moreover have "go_eq_opt w w" using SentinelError(2) by (cases w) simp_all
  ultimately show ?case by simp
qed simp_all

lemma go_eq_MultiError_plain: "\<not> isMultiError e \<Longrightarrow> \<not> go_eq (MultiError a es f) e"
  by (cases e) simp_all

lemma chain_Is_loop_iff: "chain_Is_loop es t \<longleftrightarrow> (\<exists>e \<in> set es. errors_Is_loop e t)"
  by (induction es) auto

lemma MultiError_unwrap_iff:
  "(case es of [] \<Rightarrow> False | [e] \<Rightarrow> errors_Is_loop e t | _ \<Rightarrow> chain_Is_loop es t)
     \<longleftrightarrow> (\<exists>e \<in> set es. errors_Is_loop e t)"
proof (cases es)
  case Nil
  then show ?thesis by simp
next
  case (Cons x xs)
  then show ?thesis by (cases xs) (simp_all add: chain_Is_loop_iff)
qed

lemma errors_Is_loop_iff_reachable:
  "errors_Is_loop e t \<longleftrightarrow> list_ex (\<lambda>x. go_eq x t) (spec_reachable e)"
proof (induction e)
  case (SentinelError s w)
  have s: "(case s of None \<Rightarrow> False | Some s' \<Rightarrow> errors_Is_loop s' t)
      \<longleftrightarrow> list_ex (\<lambda>x. go_eq x t) (case s of None \<Rightarrow> [] | Some s' \<Rightarrow> spec_reachable s')"
    using SentinelError(1) by (cases s) simp_all
  have w: "(case w of None \<Rightarrow> False | Some w' \<Rightarrow> errors_Is_loop w' t)
      \<longleftrightarrow> list_ex (\<lambda>x. go_eq x t) (case w of None \<Rightarrow> [] | Some w' \<Rightarrow> spec_reachable w')"
    using SentinelError(2) by (cases w) simp_all
  show ?case
    unfolding errors_Is_loop.simps spec_reachable.simps s w
    by (auto simp: list_ex_iff)
next
  case (MultiError a es f)
  have "(\<exists>e \<in> set es. errors_Is_loop e t)
      \<longleftrightarrow> list_ex (\<lambda>x. go_eq x t) (concat (map spec_reachable es))"
    using MultiError by (auto simp: list_ex_iff)
  then show ?case
    unfolding errors_Is_loop.simps spec_reachable.simps MultiError_unwrap_iff
    by (simp add: list_ex_iff)
qed simp_all

lemma sentinelError_Is_Wrap:
  "sentinelError_Is (Wrap g a (Some S) cs) (Some T)
     \<longleftrightarrow> (errors_Is_loop S T
          \<or> (case multiError g a cs of None \<Rightarrow> False | Some c \<Rightarrow> errors_Is_loop c T))"
  by (simp add: sentinelError_Is_def Wrap_def errors_Is_def split: option.splits)

lemma sentinelError_Is_nil_target:
  "sentinelError_Is (Wrap g a (Some S) cs) None \<longleftrightarrow> multiError g a cs = None"
  by (simp add: sentinelError_Is_def Wrap_def errors_Is_def)

section \<open>Evaluation rules\<close>

lemmas sentinel_defs =
  ErrOutOfBrokers_def ErrBrokerNotFound_def ErrClosedClient_def
  ErrIncompleteResponse_def ErrInvalidPartition_def ErrAlreadyConnected_def
  ErrNotConnected_def ErrInsufficientData_def ErrShuttingDown_def
  ErrMessageTooLarge_def ErrConsumerOffsetNotAdvanced_def ErrControllerNotAvailable_def
  ErrNoTopicsToUpdateMetadata_def ErrUnknownScramMechanism_def ErrReassignPartitions_def
  ErrDeleteRecords_def

lemmas aggregate_defs =
  multiError_def Append_nil_def ErrorOrNil_def init_globals_def
  Wrap_def as_error_def sentinelError_Error_def sentinelError_Unwrap_def
  call_format_def effective_format_def

lemmas format_defs = CondensedFormat_text_def ListFormatFunc_text_def Sprint_d_eval

lemma Error_Wrap:
  "sentinelError_Error I (Wrap g a (Some S) cs) =
     (case multiError g a cs of
        None \<Rightarrow> Error I S
      | Some m \<Rightarrow> Error I S @ '': '' @ Error I m)"
  by (simp add: sentinelError_Error_def as_error_def Wrap_def split: option.splits)

lemma multierror_Error_method_eq:
  "multierror_Error_method I \<lparr>Errors = es, ErrorFormat = f\<rparr> = Some (Error I (MultiError a es f))"
  by (cases f) (simp_all add: multierror_Error_method_def call_func_def call_format_def
      split: format_func.splits)

section \<open>The claims\<close>

subsection \<open>Protocol error codes\<close>

text \<open>
  C6. \<open>KError_Error\<close> gives a non-empty string for every 16-bit code. Every case
  label of the switch gives the fixed text of its arm: the texts of the ninety labels,
  in the order of the labels, are the ninety texts listed in the theorem, and each of
  them starts with \<^verbatim>\<open>kafka server: \<close>. A code that is not a case label
  (equivalently, a code below -1 or above 88) gives the fallback text, which ends with
  the code written out: a minus sign when the code is negative, then the decimal
  numeral of its absolute value. So code 9001 gives a text that ends with \<open>9001\<close>.
  Code 29 gives its fixed message and code 0 the message that says it is not an error.
\<close>

theorem KError_Error_every_code:
  "KError_Error c \<noteq> ''''
   \<and> map KError_Error KError_cases =
       [''kafka server: Not an error, why are you printing me?'',
        ''kafka server: Unexpected (unknown?) server error'',
        ''kafka server: The requested offset is outside the range of offsets maintained by the server for the given topic/partition'',
        ''kafka server: Message contents does not match its CRC'',
        ''kafka server: Request was for a topic or partition that does not exist on this broker'',
        ''kafka server: The message has a negative size'',
        ''kafka server: In the middle of a leadership election, there is currently no leader for this partition and hence it is unavailable for writes'',
        ''kafka server: Tried to send a message to a replica that is not the leader for some partition. Your metadata is out of date'',
        ''kafka server: Request exceeded the user-specified time limit in the request'',
        ''kafka server: Broker not available. Not a client facing error, we should never receive this!!!'',
        ''kafka server: Replica information not available, one or more brokers are down'',
        ''kafka server: Message was too large, server rejected it to avoid allocation error'',
        ''kafka server: StaleControllerEpochCode (internal error code for broker-to-broker communication)'',
        ''kafka server: Specified a string larger than the configured maximum for offset metadata'',
        ''kafka server: The server disconnected before a response was received'',
        ''kafka server: The broker is still loading offsets after a leader change for that offset's topic partition'',
        ''kafka server: Offset's topic has not yet been created'',
        ''kafka server: Request was for a consumer group that is not coordinated by this broker'',
        ''kafka server: The request attempted to perform an operation on an invalid topic'',
        ''kafka server: The request included message batch larger than the configured segment size on the server'',
        ''kafka server: Messages are rejected since there are fewer in-sync replicas than required'',
        ''kafka server: Messages are written to the log, but to fewer in-sync replicas than required'',
        ''kafka server: The number of required acks is invalid (should be either -1, 0, or 1)'',
        ''kafka server: The provided generation id is not the current generation'',
        ''kafka server: The provider group protocol type is incompatible with the other members'',
        ''kafka server: The provided group id was empty'',
        ''kafka server: The provided member is not known in the current generation'',
        ''kafka server: The provided session timeout is outside the allowed range'',
        ''kafka server: A rebalance for the group is in progress. Please re-join the group'',
        ''kafka server: The provided commit metadata was too large'',
        ''kafka server: The client is not authorized to access this topic'',
        ''kafka server: The client is not authorized to access this group'',
        ''kafka server: The client is not authorized to send this request type'',
        ''kafka server: The timestamp of the message is out of acceptable range'',
        ''kafka server: The broker does not support the requested SASL mechanism'',
        ''kafka server: Request is not valid given the current SASL state'',
        ''kafka server: The version of API is not supported'',
        ''kafka server: Topic with this name already exists'',
        ''kafka server: Number of partitions is invalid'',
        ''kafka server: Replication-factor is invalid'',
        ''kafka server: Replica assignment is invalid'',
        ''kafka server: Configuration is invalid'',
        ''kafka server: This is not the correct controller for this cluster'',
        ''kafka server: This most likely occurs because of a request being malformed by the client library or the message was sent to an incompatible broker. See the broker logs for more details'',
        ''kafka server: The requested operation is not supported by the message format version'',
        ''kafka server: Request parameters do not satisfy the configured policy'',
        ''kafka server: The broker received an out of order sequence number'',
        ''kafka server: The broker received a duplicate sequence number'',
        ''kafka server: Producer attempted an operation with an old epoch'',
        ''kafka server: The producer attempted a transactional operation in an invalid state'',
        ''kafka server: The producer attempted to use a producer id which is not currently assigned to its transactional id'',
        ''kafka server: The transaction timeout is larger than the maximum value allowed by the broker (as configured by max.transaction.timeout.ms)'',
        ''kafka server: The producer attempted to update a transaction while another concurrent operation on the same transaction was ongoing'',
        ''kafka server: The transaction coordinator sending a WriteTxnMarker is no longer the current coordinator for a given producer'',
        ''kafka server: Transactional ID authorization failed'',
        ''kafka server: Security features are disabled'',
        ''kafka server: The broker did not attempt to execute this operation'',
        ''kafka server: Disk error when trying to access log file on the disk'',
        ''kafka server: The specified log directory is not found in the broker config'',
        ''kafka server: SASL Authentication failed'',
        ''kafka server: The broker could not locate the producer metadata associated with the Producer ID'',
        ''kafka server: A partition reassignment is in progress'',
        ''kafka server: Delegation Token feature is not enabled'',
        ''kafka server: Delegation Token is not found on server'',
        ''kafka server: Specified Principal is not valid Owner/Renewer'',
        ''kafka server: Delegation Token requests are not allowed on PLAINTEXT/1-way SSL channels and on delegation token authenticated channels'',
        ''kafka server: Delegation Token authorization failed'',
        ''kafka server: Delegation Token is expired'',
        ''kafka server: Supplied principalType is not supported'',
        ''kafka server: The group is not empty'',
        ''kafka server: The group id does not exist'',
        ''kafka server: The fetch session ID was not found'',
        ''kafka server: The fetch session epoch is invalid'',
        ''kafka server: There is no listener on the leader broker that matches the listener on which metadata request was processed'',
        ''kafka server: Topic deletion is disabled'',
        ''kafka server: The leader epoch in the request is older than the epoch on the broker'',
        ''kafka server: The leader epoch in the request is newer than the epoch on the broker'',
        ''kafka server: The requesting client does not support the compression type of given partition'',
        ''kafka server: Broker epoch has changed'',
        ''kafka server: The leader high watermark has not caught up from a recent leader election so the offsets cannot be guaranteed to be monotonically increasing'',
        ''kafka server: The group member needs to have a valid member id before actually entering a consumer group'',
        ''kafka server: The preferred leader was not available'',
        ''kafka server: Consumer group The consumer group has reached its max size. already has the configured maximum number of members'',
        ''kafka server: The broker rejected this static consumer since another consumer with the same group.instance.id has registered with a different member.id'',
        ''kafka server: Eligible topic partition leaders are not available'',
        ''kafka server: Leader election not needed for topic partition'',
        ''kafka server: No partition reassignment is in progress'',
        ''kafka server: Deleting offsets of a topic is forbidden while the consumer group is actively subscribed to it'',
        ''kafka server: This record has failed the validation on broker and hence will be rejected'',
        ''kafka server: There are unstable offsets that need to be cleared'']
   \<and> (\<forall>k \<in> set KError_cases. take 14 (KError_Error k) = ''kafka server: '')
   \<and> (c \<notin> set KError_cases \<longrightarrow>
        (\<exists>ds. decimal_numeral ds (nat \<bar>sint c\<bar>)
           \<and> KError_Error c = ''Unknown error, how did this happen? Error code = ''
                @ (if sint c < 0 then ''-'' else '''') @ ds))
   \<and> (c \<notin> set KError_cases \<longleftrightarrow> sint c < - 1 \<or> 88 < sint c)
   \<and> Sprint_d (sint (9001 :: KError)) = ''9001''
   \<and> KError_Error 9001 = ''Unknown error, how did this happen? Error code = 9001''
   \<and> KError_Error ErrTopicAuthorizationFailed
        = ''kafka server: The client is not authorized to access this topic''
   \<and> KError_Error ErrNoError = ''kafka server: Not an error, why are you printing me?''"
proof -
  have unknown: "\<exists>ds. decimal_numeral ds (nat \<bar>sint c\<bar>)
      \<and> KError_Error c = ''Unknown error, how did this happen? Error code = ''
           @ (if sint c < 0 then ''-'' else '''') @ ds"
    if "c \<notin> set KError_cases"
  proof (intro exI conjI)
    show "decimal_numeral (dec_nat (nat \<bar>sint c\<bar>)) (nat \<bar>sint c\<bar>)"
      by (rule dec_nat_decimal_numeral)
    show "KError_Error c = ''Unknown error, how did this happen? Error code = ''
        @ (if sint c < 0 then ''-'' else '''') @ dec_nat (nat \<bar>sint c\<bar>)"
      using KError_Error_fallback [OF that] Sprint_d_sign_digits [of "sint c"] by simp
  qed
  have range: "c \<notin> set KError_cases \<longleftrightarrow> sint c < - 1 \<or> 88 < sint c"
    using KError_cases_iff [of c] by auto
  have d: "Sprint_d (sint (9001 :: KError)) = ''9001''"
    by (simp add: Sprint_d_eval)
  have e: "KError_Error 9001 = ''Unknown error, how did this happen? Error code = 9001''"
    by (simp add: KError_Error_def Sprint_d_eval)
  show ?thesis
    apply (intro conjI)
            apply (rule KError_Error_nonempty)
           apply (rule KError_Error_labels)
          apply (rule KError_Error_prefix)
         apply (intro impI, erule unknown)
        apply (rule range)
       apply (rule d)
      apply (rule e)
     apply (rule KError_Error_arms)
    apply (rule KError_Error_arms)
    done
qed

theorem KError_Error_every_code_witness:
  "(- 37 :: KError) \<notin> set KError_cases
   \<and> decimal_numeral ''37'' 37
   \<and> KError_Error (- 37) = ''Unknown error, how did this happen? Error code = -37''
   \<and> KError_Error (- 37) \<noteq> ''''
   \<and> ErrLeaderNotAvailable \<in> set KError_cases
   \<and> take 14 (KError_Error ErrLeaderNotAvailable) = ''kafka server: ''"
proof -
  note T = KError_Error_every_code [of "- 37"]
  note nonempty = T [THEN conjunct1]
  note prefix = T [THEN conjunct2, THEN conjunct2, THEN conjunct1]
  note range = T [THEN conjunct2, THEN conjunct2, THEN conjunct2, THEN conjunct2, THEN conjunct1]
  have out: "(- 37 :: KError) \<notin> set KError_cases"
    using range by simp
  have label: "ErrLeaderNotAvailable \<in> set KError_cases"
    by (simp add: KError_cases_def)
  have p: "take 14 (KError_Error ErrLeaderNotAvailable) = ''kafka server: ''"
    using prefix label by blast
  have n: "decimal_numeral ''37'' 37"
    by (simp add: decimal_numeral_def digits_value_def)
  have t: "KError_Error (- 37) = ''Unknown error, how did this happen? Error code = -37''"
    by (simp add: KError_Error_def Sprint_d_eval)
  show ?thesis
    using out n t nonempty label p by blast
qed

text \<open>
  C9. The code -1 (\<open>ErrUnknown\<close>) is a case label of the switch: its text is the fixed
  message of its arm, and differs from the fallback text for the number -1.
\<close>

theorem KError_ErrUnknown_own_message:
  "ErrUnknown \<in> set KError_cases
   \<and> KError_Error ErrUnknown = ''kafka server: Unexpected (unknown?) server error''
   \<and> KError_Error ErrUnknown
        \<noteq> ''Unknown error, how did this happen? Error code = '' @ Sprint_d (sint ErrUnknown)"
  by (simp add: KError_cases_def KError_Error_def Sprint_d_eval)

subsection \<open>Aggregation\<close>

text \<open>
  C1, as the code has it. \<open>multiError\<close> copies the value of \<open>MultiErrorFormat\<close>
  into the field \<open>ErrorFormat\<close> of the aggregate it builds, and \<open>Error\<close> reads that
  field only (it takes no \<open>globals\<close>). An aggregate therefore renders with the policy
  that was current when it was constructed (the list formatter of the library when
  that policy was nil), whatever is assigned to the variable afterwards; an aggregate
  constructed after the assignment of a policy \<open>P2\<close> renders with \<open>P2\<close>.
  The counterexample builds an aggregate of two sentinels under the initial policy and
  then assigns the list formatter of the library to the variable: the text of the
  aggregate is still the text of the initial policy (one newline at the end), not the
  text that the new policy yields on the two errors (two newlines).
\<close>

theorem multiError_renders_with_construction_policy:
  assumes "multiError g1 a es = Some m"
  shows "m = MultiError a (Append_loop [] es) (MultiErrorFormat g1)
         \<and> Error I m = call_format I (effective_format (MultiErrorFormat g1)) (Append_loop [] es)
         \<and> (\<exists>m'. multiError (g1\<lparr>MultiErrorFormat := P2\<rparr>) b es = Some m'
                \<and> Error I m' = call_format I (effective_format P2) (Append_loop [] es))"
proof -
  have ne: "Append_loop [] es \<noteq> []"
    using assms multiError_eq [of g1 a es] by (auto split: if_splits)
  have m: "m = MultiError a (Append_loop [] es) (MultiErrorFormat g1)"
    using assms ne multiError_eq [of g1 a es] by simp
  have "multiError (g1\<lparr>MultiErrorFormat := P2\<rparr>) b es
      = Some (MultiError b (Append_loop [] es) P2)"
    using ne multiError_eq [of "g1\<lparr>MultiErrorFormat := P2\<rparr>" b es] by simp
  then show ?thesis
    using m Error_MultiError by simp
qed

theorem multiError_renders_with_construction_policy_witness:
  "multiError init_globals 100 [Some ErrOutOfBrokers, Some ErrClosedClient]
     = Some (MultiError 100 [ErrOutOfBrokers, ErrClosedClient] (Some CondensedFormat))
   \<and> (\<forall>I. Error I (MultiError 100 [ErrOutOfBrokers, ErrClosedClient] (Some CondensedFormat))
     = ''2 errors occurred:'' @ [newline, tab]
       @ ''* kafka: client has run out of available brokers to talk to'' @ [newline, tab]
       @ ''* kafka: tried to use a client that was closed'' @ [newline])"
proof -
  have c: "multiError init_globals 100 [Some ErrOutOfBrokers, Some ErrClosedClient]
      = Some (MultiError 100 [ErrOutOfBrokers, ErrClosedClient] (Some CondensedFormat))"
    by (simp add: aggregate_defs sentinel_defs)
  have l: "Append_loop [] [Some ErrOutOfBrokers, Some ErrClosedClient]
      = [ErrOutOfBrokers, ErrClosedClient]"
    by (simp add: sentinel_defs)
  have "call_format I CondensedFormat [ErrOutOfBrokers, ErrClosedClient]
      = ''2 errors occurred:'' @ [newline, tab]
       @ ''* kafka: client has run out of available brokers to talk to'' @ [newline, tab]
       @ ''* kafka: tried to use a client that was closed'' @ [newline]" for I
    by (simp add: call_format_def format_defs sentinel_defs)
  then show ?thesis
    using multiError_renders_with_construction_policy [OF c] c l
    by (simp add: init_globals_def effective_format_def)
qed

theorem reassigned_policy_counterexample:
  "multiError init_globals 100 [Some ErrOutOfBrokers, Some ErrClosedClient]
     = Some (MultiError 100 [ErrOutOfBrokers, ErrClosedClient] (Some CondensedFormat))
   \<and> MultiErrorFormat (init_globals\<lparr>MultiErrorFormat := Some ListFormatFunc\<rparr>)
     = Some ListFormatFunc
   \<and> Error no_user_formats
        (MultiError 100 [ErrOutOfBrokers, ErrClosedClient] (Some CondensedFormat))
     = ''2 errors occurred:'' @ [newline, tab]
       @ ''* kafka: client has run out of available brokers to talk to'' @ [newline, tab]
       @ ''* kafka: tried to use a client that was closed'' @ [newline]
   \<and> call_format no_user_formats ListFormatFunc [ErrOutOfBrokers, ErrClosedClient]
     = ''2 errors occurred:'' @ [newline, tab]
       @ ''* kafka: client has run out of available brokers to talk to'' @ [newline, tab]
       @ ''* kafka: tried to use a client that was closed'' @ [newline, newline]
   \<and> Error no_user_formats
        (MultiError 100 [ErrOutOfBrokers, ErrClosedClient] (Some CondensedFormat))
     \<noteq> call_format no_user_formats ListFormatFunc [ErrOutOfBrokers, ErrClosedClient]"
  by (simp add: aggregate_defs sentinel_defs format_defs)

text \<open>
  C2, as the code has it. \<open>ErrorOrNil\<close> returns the aggregate itself as soon as it
  has a member, so the fold of a single error \<open>e\<close> that is not itself an aggregate is
  a one-member aggregate around \<open>e\<close>, a value that is not identical to \<open>e\<close>. The
  first branch of the default policy makes it render exactly as \<open>e\<close>. The fold of a
  single aggregate is a new aggregate with the same members and the current policy, or
  nil when there are no members.
\<close>

theorem multiError_single_is_container:
  assumes "\<not> isMultiError e"
  shows "multiError g a [Some e] = Some (MultiError a [e] (MultiErrorFormat g))
         \<and> \<not> go_eq (MultiError a [e] (MultiErrorFormat g)) e
         \<and> Error I (MultiError a [e] (Some CondensedFormat)) = Error I e
         \<and> multiError g a [Some (MultiError b ms f)]
             = (if ms = [] then None else Some (MultiError a ms (MultiErrorFormat g)))"
proof -
  have "multiError g a [Some (MultiError b ms f)]
      = (if ms = [] then None else Some (MultiError a ms (MultiErrorFormat g)))"
    using multiError_eq [of g a "[Some (MultiError b ms f)]"] by simp
  moreover
  have "Append_loop [] [Some e] = [e]"
    using assms by (rule Append_loop_plain)
  then have "multiError g a [Some e] = Some (MultiError a [e] (MultiErrorFormat g))"
    using multiError_eq [of g a "[Some e]"] by simp
  moreover have "\<not> go_eq (MultiError a [e] (MultiErrorFormat g)) e"
    using assms by (rule go_eq_MultiError_plain)
  moreover have "Error I (MultiError a [e] (Some CondensedFormat)) = Error I e"
    by (simp add: CondensedFormat_text_def)
  ultimately show ?thesis by simp
qed

theorem multiError_single_is_container_witness:
  "\<not> isMultiError (KErr ErrRequestTimedOut)
   \<and> multiError init_globals 7 [Some (KErr ErrRequestTimedOut)]
       = Some (MultiError 7 [KErr ErrRequestTimedOut] (Some CondensedFormat))
   \<and> (\<forall>I. Error I (MultiError 7 [KErr ErrRequestTimedOut] (Some CondensedFormat))
       = ''kafka server: Request exceeded the user-specified time limit in the request'')"
proof -
  have h: "\<not> isMultiError (KErr ErrRequestTimedOut)" by simp
  have "Error I (KErr ErrRequestTimedOut)
      = ''kafka server: Request exceeded the user-specified time limit in the request''" for I
    by (simp add: KError_Error_def)
  then show ?thesis
    using multiError_single_is_container [OF h, of init_globals 7] h
    by (simp add: init_globals_def)
qed

theorem multiError_single_counterexample:
  "multiError init_globals 100 [Some ErrClosedClient]
     = Some (MultiError 100 [ErrClosedClient] (Some CondensedFormat))
   \<and> multiError init_globals 100 [Some ErrClosedClient] \<noteq> Some ErrClosedClient
   \<and> \<not> go_eq_opt (multiError init_globals 100 [Some ErrClosedClient]) (Some ErrClosedClient)"
  by (simp add: aggregate_defs sentinel_defs)

text \<open>
  C7, as the code has it. Folding the result of a fold together with further entries
  gives the same aggregate as folding all the entries at once: \<open>Append\<close> splices the
  members of an aggregate argument into the new member list, one level deep. For all
  entries \<open>x\<close>, \<open>y\<close>, \<open>z\<close> the members of the result are what \<open>x\<close>, \<open>y\<close> and \<open>z\<close>
  contribute, in this order, where an entry that is itself an aggregate contributes its
  members and not itself. Hence for three errors \<open>a\<close>, \<open>b\<close>, \<open>c\<close> that are not
  aggregates the result is the flat aggregate with the members \<open>a\<close>, \<open>b\<close>, \<open>c\<close>, and
  the default policy renders it as a list of three. The counterexample takes for \<open>a\<close>
  an aggregate of two sentinels that the package itself built: the result has four
  members and renders as a list of four, not of three.
\<close>

theorem multiError_flattens:
  "multiError g p [multiError g q [x, y], z] = multiError g p [x, y, z]
   \<and> multiError g p [multiError g q [x, y], z] =
       (if members_of x @ members_of y @ members_of z = [] then None
        else Some (MultiError p (members_of x @ members_of y @ members_of z) (MultiErrorFormat g)))
   \<and> (\<not> isMultiError a \<and> \<not> isMultiError b \<and> \<not> isMultiError c \<longrightarrow>
        multiError g p [multiError g q [Some a, Some b], Some c]
          = Some (MultiError p [a, b, c] (MultiErrorFormat g))
        \<and> Error I (MultiError p [a, b, c] (Some CondensedFormat))
          = ''3 errors occurred:'' @ [newline, tab] @ ''* '' @ Error I a
            @ [newline, tab] @ ''* '' @ Error I b
            @ [newline, tab] @ ''* '' @ Error I c @ [newline])"
proof -
  have inner: "Append_loop [] [multiError g q [x, y]] = Append_loop [] [x, y]" for x y
    using multiError_eq [of g q "[x, y]"] by simp
  have "Append_loop [] [multiError g q [x, y], z] = Append_loop [] [x, y, z]" for x y z
    using Append_loop_Cons [of "multiError g q [x, y]" "[z]"] inner [of x y]
      Append_loop_Cons [of x "[y, z]"] Append_loop_Cons [of y "[z]"]
      Append_loop_Cons [of x "[y]"]
    by simp
  then have flat: "multiError g p [multiError g q [x, y], z] = multiError g p [x, y, z]"
    for x y z
    using multiError_eq [of g p "[multiError g q [x, y], z]"] multiError_eq [of g p "[x, y, z]"]
    by simp
  have members: "multiError g p [x, y, z] =
      (if members_of x @ members_of y @ members_of z = [] then None
       else Some (MultiError p (members_of x @ members_of y @ members_of z) (MultiErrorFormat g)))"
    using multiError_eq [of g p "[x, y, z]"] Append_loop_members [of "[x, y, z]"] by simp
  have three: "multiError g p [Some a, Some b, Some c]
      = Some (MultiError p [a, b, c] (MultiErrorFormat g))"
    if "\<not> isMultiError a" "\<not> isMultiError b" "\<not> isMultiError c"
  proof -
    have "Append_loop [] [Some a, Some b, Some c] = [a, b, c]"
      using Append_loop_plain_list [of "[Some a, Some b, Some c]"] that by simp
    then show ?thesis
      using multiError_eq [of g p "[Some a, Some b, Some c]"] by simp
  qed
  have rendered: "Error I (MultiError p [a, b, c] (Some CondensedFormat))
      = ''3 errors occurred:'' @ [newline, tab] @ ''* '' @ Error I a
        @ [newline, tab] @ ''* '' @ Error I b
        @ [newline, tab] @ ''* '' @ Error I c @ [newline]"
    by (simp add: format_defs)
  show ?thesis
    using flat [of x y z] members flat [of "Some a" "Some b" "Some c"] three rendered by simp
qed

theorem multiError_flattens_witness:
  "\<not> isMultiError ErrOutOfBrokers \<and> \<not> isMultiError ErrNotConnected
   \<and> \<not> isMultiError (KErr ErrRequestTimedOut)
   \<and> multiError init_globals 9
        [multiError init_globals 8 [Some ErrOutOfBrokers, Some ErrNotConnected],
         Some (KErr ErrRequestTimedOut)]
       = Some (MultiError 9 [ErrOutOfBrokers, ErrNotConnected, KErr ErrRequestTimedOut]
                 (Some CondensedFormat))
   \<and> (\<forall>I. Error I (MultiError 9 [ErrOutOfBrokers, ErrNotConnected, KErr ErrRequestTimedOut]
                 (Some CondensedFormat))
       = ''3 errors occurred:'' @ [newline, tab]
         @ ''* kafka: client has run out of available brokers to talk to'' @ [newline, tab]
         @ ''* kafka: broker not connected'' @ [newline, tab]
         @ ''* kafka server: Request exceeded the user-specified time limit in the request''
         @ [newline])"
proof -
  have h: "\<not> isMultiError ErrOutOfBrokers \<and> \<not> isMultiError ErrNotConnected
      \<and> \<not> isMultiError (KErr ErrRequestTimedOut)"
    by (simp add: sentinel_defs)
  have e: "Error I ErrOutOfBrokers = ''kafka: client has run out of available brokers to talk to''
      \<and> Error I ErrNotConnected = ''kafka: broker not connected''
      \<and> Error I (KErr ErrRequestTimedOut)
          = ''kafka server: Request exceeded the user-specified time limit in the request''" for I
    by (simp add: sentinel_defs KError_Error_def)
  show ?thesis
    using h e
      multiError_flattens [of init_globals 9 8 None None None
        ErrOutOfBrokers ErrNotConnected "KErr ErrRequestTimedOut"]
    by (simp add: init_globals_def)
qed

theorem multiError_flattens_counterexample:
  "multiError init_globals 1 [Some ErrOutOfBrokers, Some ErrNotConnected]
     = Some (MultiError 1 [ErrOutOfBrokers, ErrNotConnected] (Some CondensedFormat))
   \<and> multiError init_globals 9
        [multiError init_globals 8
           [Some (MultiError 1 [ErrOutOfBrokers, ErrNotConnected] (Some CondensedFormat)),
            Some ErrClosedClient],
         Some ErrShuttingDown]
       = Some (MultiError 9 [ErrOutOfBrokers, ErrNotConnected, ErrClosedClient, ErrShuttingDown]
                 (Some CondensedFormat))
   \<and> Error no_user_formats
        (MultiError 9 [ErrOutOfBrokers, ErrNotConnected, ErrClosedClient, ErrShuttingDown]
           (Some CondensedFormat))
       = ''4 errors occurred:'' @ [newline, tab]
         @ ''* kafka: client has run out of available brokers to talk to'' @ [newline, tab]
         @ ''* kafka: broker not connected'' @ [newline, tab]
         @ ''* kafka: tried to use a client that was closed'' @ [newline, tab]
         @ ''* kafka: message received by producer in process of shutting down'' @ [newline]
   \<and> Error no_user_formats
        (MultiError 9 [ErrOutOfBrokers, ErrNotConnected, ErrClosedClient, ErrShuttingDown]
           (Some CondensedFormat))
       \<noteq> ''3 errors occurred:'' @ [newline, tab]
         @ ''* '' @ Error no_user_formats
                     (MultiError 1 [ErrOutOfBrokers, ErrNotConnected] (Some CondensedFormat))
         @ [newline, tab] @ ''* '' @ Error no_user_formats ErrClosedClient
         @ [newline, tab] @ ''* '' @ Error no_user_formats ErrShuttingDown @ [newline]"
  by (simp add: aggregate_defs sentinel_defs format_defs)

text \<open>
  C8, as the code has it. The fold drops nil entries: when every entry is nil (in
  particular for the empty list) the result is nil. For every input sequence the
  members of the result are what the entries contribute, in input order: nothing for a
  nil entry, the members of an entry that is itself an aggregate, and the entry itself
  otherwise; the result is nil when nothing is contributed. When no entry is an
  aggregate, the members are exactly the non-nil entries in their input order. With two
  or more members the default policy renders the decimal numeral of the number of
  members, the words \<^verbatim>\<open> errors occurred:\<close>, then for each member in order a newline,
  a tab, \<^verbatim>\<open>* \<close> and the text of the member, and a final newline. The counterexample
  folds two non-nil entries of which the first is an aggregate of two sentinels: the
  text has the header for three errors and three points, not the header for two and a
  point for each entry.
\<close>

theorem multiError_drops_nil_keeps_order:
  "((\<forall>e \<in> set es. e = None) \<longrightarrow> multiError g a es = None)
   \<and> multiError g a es =
       (if concat (map members_of es) = [] then None
        else Some (MultiError a (concat (map members_of es)) (MultiErrorFormat g)))
   \<and> ((\<forall>e \<in> set es. \<forall>x. e = Some x \<longrightarrow> \<not> isMultiError x) \<longrightarrow>
        multiError g a es =
          (let kept = map the (filter (\<lambda>e. e \<noteq> None) es)
           in if kept = [] then None else Some (MultiError a kept (MultiErrorFormat g))))
   \<and> (2 \<le> length ms \<longrightarrow>
        (\<exists>ds. decimal_numeral ds (length ms)
           \<and> Error I (MultiError a ms (Some CondensedFormat)) =
               ds @ '' errors occurred:''
               @ concat (map (\<lambda>e. [newline, tab] @ ''* '' @ Error I e) ms) @ [newline]))"
proof -
  have nil: "multiError g a es = None" if "\<forall>e \<in> set es. e = None"
    using Append_loop_all_nil [OF that] multiError_eq [of g a es] by simp
  have members: "multiError g a es =
      (if concat (map members_of es) = [] then None
       else Some (MultiError a (concat (map members_of es)) (MultiErrorFormat g)))"
    using multiError_eq [of g a es] Append_loop_members [of es] by simp
  have plain: "multiError g a es =
      (let kept = map the (filter (\<lambda>e. e \<noteq> None) es)
       in if kept = [] then None else Some (MultiError a kept (MultiErrorFormat g)))"
    if "\<forall>e \<in> set es. \<forall>x. e = Some x \<longrightarrow> \<not> isMultiError x"
    using Append_loop_plain_list [OF that] multiError_eq [of g a es] by (simp add: Let_def)
  have rendered: "\<exists>ds. decimal_numeral ds (length ms)
      \<and> Error I (MultiError a ms (Some CondensedFormat)) =
          ds @ '' errors occurred:''
          @ concat (map (\<lambda>e. [newline, tab] @ ''* '' @ Error I e) ms) @ [newline]"
    if "2 \<le> length ms"
  proof (intro exI conjI)
    show "decimal_numeral (dec_nat (length ms)) (length ms)"
      by (rule dec_nat_decimal_numeral)
    have "2 \<le> length (map (Error I) ms)" using that by simp
    then have "CondensedFormat_text (map (Error I) ms) =
        dec_nat (length (map (Error I) ms)) @ '' errors occurred:''
        @ concat (map (\<lambda>t. [newline, tab] @ ''* '' @ t) (map (Error I) ms)) @ [newline]"
      by (rule CondensedFormat_text_bullets)
    then show "Error I (MultiError a ms (Some CondensedFormat)) =
        dec_nat (length ms) @ '' errors occurred:''
        @ concat (map (\<lambda>e. [newline, tab] @ ''* '' @ Error I e) ms) @ [newline]"
      by (simp add: comp_def)
  qed
  show ?thesis using nil members plain rendered by blast
qed

theorem multiError_drops_nil_keeps_order_witness:
  "multiError init_globals 5 [None, None] = None
   \<and> multiError init_globals 5 [] = None
   \<and> multiError init_globals 5 [Some ErrOutOfBrokers, None, Some ErrNotConnected]
       = Some (MultiError 5 [ErrOutOfBrokers, ErrNotConnected] (Some CondensedFormat))
   \<and> (\<forall>I. \<exists>ds. decimal_numeral ds 2
         \<and> Error I (MultiError 5 [ErrOutOfBrokers, ErrNotConnected] (Some CondensedFormat))
             = ds @ '' errors occurred:'' @ [newline, tab]
               @ ''* kafka: client has run out of available brokers to talk to'' @ [newline, tab]
               @ ''* kafka: broker not connected'' @ [newline])
   \<and> (\<forall>I. Error I (MultiError 5 [ErrOutOfBrokers, ErrNotConnected] (Some CondensedFormat))
       = ''2 errors occurred:'' @ [newline, tab]
         @ ''* kafka: client has run out of available brokers to talk to'' @ [newline, tab]
         @ ''* kafka: broker not connected'' @ [newline])"
proof -
  have a: "\<forall>e \<in> set [None, None :: err option]. e = None" by simp
  have b: "\<forall>e \<in> set ([] :: err option list). e = None" by simp
  have c: "\<forall>e \<in> set [Some ErrOutOfBrokers, None, Some ErrNotConnected].
      \<forall>x. e = Some x \<longrightarrow> \<not> isMultiError x"
    by (simp add: sentinel_defs)
  have d: "2 \<le> length [ErrOutOfBrokers, ErrNotConnected]" by simp
  have "multiError init_globals 5 [None, None] = None"
    using multiError_drops_nil_keeps_order
      [of "[None, None]" init_globals 5, THEN conjunct1, THEN mp, OF a] .
  moreover have "multiError init_globals 5 [] = None"
    using multiError_drops_nil_keeps_order
      [of "[]" init_globals 5, THEN conjunct1, THEN mp, OF b] .
  moreover have "multiError init_globals 5 [Some ErrOutOfBrokers, None, Some ErrNotConnected]
      = Some (MultiError 5 [ErrOutOfBrokers, ErrNotConnected] (Some CondensedFormat))"
    using multiError_drops_nil_keeps_order
      [of "[Some ErrOutOfBrokers, None, Some ErrNotConnected]" init_globals 5,
        THEN conjunct2, THEN conjunct2, THEN conjunct1, THEN mp, OF c]
    by (simp add: init_globals_def)
  moreover have "\<exists>ds. decimal_numeral ds 2
      \<and> Error I (MultiError 5 [ErrOutOfBrokers, ErrNotConnected] (Some CondensedFormat))
          = ds @ '' errors occurred:'' @ [newline, tab]
            @ ''* kafka: client has run out of available brokers to talk to'' @ [newline, tab]
            @ ''* kafka: broker not connected'' @ [newline]" for I
  proof -
    obtain ds where n: "decimal_numeral ds (length [ErrOutOfBrokers, ErrNotConnected])"
      and t: "Error I (MultiError 5 [ErrOutOfBrokers, ErrNotConnected] (Some CondensedFormat)) =
          ds @ '' errors occurred:''
          @ concat (map (\<lambda>e. [newline, tab] @ ''* '' @ Error I e)
              [ErrOutOfBrokers, ErrNotConnected]) @ [newline]"
      using multiError_drops_nil_keeps_order
        [of "[]" init_globals 5 "[ErrOutOfBrokers, ErrNotConnected]" I,
          THEN conjunct2, THEN conjunct2, THEN conjunct2, THEN mp, OF d]
      by blast
    have "decimal_numeral ds 2" using n by (simp add: numeral_2_eq_2)
    moreover have "concat (map (\<lambda>e. [newline, tab] @ ''* '' @ Error I e)
          [ErrOutOfBrokers, ErrNotConnected])
        = [newline, tab] @ ''* kafka: client has run out of available brokers to talk to''
          @ [newline, tab] @ ''* kafka: broker not connected''"
      by (simp add: sentinel_defs)
    ultimately show ?thesis using t by auto
  qed
  moreover have "Error I (MultiError 5 [ErrOutOfBrokers, ErrNotConnected] (Some CondensedFormat))
       = ''2 errors occurred:'' @ [newline, tab]
         @ ''* kafka: client has run out of available brokers to talk to'' @ [newline, tab]
         @ ''* kafka: broker not connected'' @ [newline]" for I
    by (simp add: sentinel_defs format_defs)
  ultimately show ?thesis by blast
qed

theorem multiError_aggregate_entry_counterexample:
  "multiError init_globals 5
     [Some (MultiError 1 [ErrOutOfBrokers, ErrNotConnected] (Some CondensedFormat)),
      Some ErrClosedClient]
     = Some (MultiError 5 [ErrOutOfBrokers, ErrNotConnected, ErrClosedClient]
               (Some CondensedFormat))
   \<and> Error no_user_formats
        (MultiError 5 [ErrOutOfBrokers, ErrNotConnected, ErrClosedClient] (Some CondensedFormat))
       = ''3 errors occurred:'' @ [newline, tab]
         @ ''* kafka: client has run out of available brokers to talk to'' @ [newline, tab]
         @ ''* kafka: broker not connected'' @ [newline, tab]
         @ ''* kafka: tried to use a client that was closed'' @ [newline]
   \<and> Error no_user_formats
        (MultiError 5 [ErrOutOfBrokers, ErrNotConnected, ErrClosedClient] (Some CondensedFormat))
       \<noteq> ''2 errors occurred:'' @ [newline, tab]
         @ ''* '' @ Error no_user_formats
                     (MultiError 1 [ErrOutOfBrokers, ErrNotConnected] (Some CondensedFormat))
         @ [newline, tab] @ ''* '' @ Error no_user_formats ErrClosedClient @ [newline]"
  by (simp add: aggregate_defs sentinel_defs format_defs)

text \<open>
  C10. When \<open>MultiErrorFormat\<close> is nil at construction, the assignment in
  \<open>multiError\<close> is skipped and the field \<open>ErrorFormat\<close> of the aggregate keeps the nil
  that \<open>Append\<close> left there. \<open>Error\<close> of the library replaces a nil field by its list
  formatter before the call, so the call does not go through a nil function value
  (\<open>multierror_Error_method\<close> returns a text) and the formatter that is called for such
  an aggregate is \<open>ListFormatFunc\<close>, also when the aggregate is the cause that
  \<open>Wrap\<close> stored.
\<close>

theorem multiError_nil_policy_uses_list_format:
  assumes "MultiErrorFormat g = None" and "multiError g a es = Some m"
  shows "m = MultiError a (Append_loop [] es) None
         \<and> multierror_Error_method I \<lparr>Errors = Append_loop [] es, ErrorFormat = None\<rparr>
             = Some (Error I m)
         \<and> Error I m = call_format I ListFormatFunc (Append_loop [] es)
         \<and> Error I m = ListFormatFunc_text (map (Error I) (Append_loop [] es))
         \<and> sentinelError_Unwrap (Wrap g a (Some S) es) = Some m
         \<and> sentinelError_Error I (Wrap g a (Some S) es)
             = Error I S @ '': '' @ ListFormatFunc_text (map (Error I) (Append_loop [] es))"
proof -
  have ne: "Append_loop [] es \<noteq> []"
    using assms(2) multiError_eq [of g a es] by (auto split: if_splits)
  then have m: "m = MultiError a (Append_loop [] es) None"
    using assms multiError_eq [of g a es] by simp
  then have e: "Error I m = ListFormatFunc_text (map (Error I) (Append_loop [] es))"
    by simp
  moreover have "sentinelError_Unwrap (Wrap g a (Some S) es) = Some m"
    using assms(2) by (simp add: sentinelError_Unwrap_def Wrap_def)
  moreover have "sentinelError_Error I (Wrap g a (Some S) es) = Error I S @ '': '' @ Error I m"
    using assms(2) Error_Wrap [of I g a S es] by simp
  ultimately show ?thesis
    using m multierror_Error_method_eq [of I "Append_loop [] es" None a]
    by (simp add: call_format_def)
qed

theorem multiError_nil_policy_uses_list_format_witness:
  "MultiErrorFormat \<lparr>MultiErrorFormat = None\<rparr> = None
   \<and> multiError \<lparr>MultiErrorFormat = None\<rparr> 3 [Some ErrClosedClient]
       = Some (MultiError 3 [ErrClosedClient] None)
   \<and> (\<forall>I. Error I (MultiError 3 [ErrClosedClient] None)
       = ''1 error occurred:'' @ [newline, tab]
         @ ''* kafka: tried to use a client that was closed'' @ [newline, newline])"
proof -
  have p: "MultiErrorFormat \<lparr>MultiErrorFormat = None\<rparr> = None" by simp
  have c: "multiError \<lparr>MultiErrorFormat = None\<rparr> 3 [Some ErrClosedClient]
      = Some (MultiError 3 [ErrClosedClient] None)"
    by (simp add: aggregate_defs sentinel_defs)
  have l: "Append_loop [] [Some ErrClosedClient] = [ErrClosedClient]"
    by (simp add: sentinel_defs)
  have "ListFormatFunc_text (map (Error I) [ErrClosedClient])
      = ''1 error occurred:'' @ [newline, tab]
         @ ''* kafka: tried to use a client that was closed'' @ [newline, newline]" for I
    by (simp add: ListFormatFunc_text_def sentinel_defs)
  then show ?thesis
    using multiError_nil_policy_uses_list_format [OF p c] p c l by simp
qed

subsection \<open>Wrapping\<close>

text \<open>
  C3, as the code has it. \<open>Wrap\<close> stores the result of \<open>multiError\<close>. For a single
  cause \<open>c\<close> that is not an aggregate this is the one-member aggregate around \<open>c\<close>, so
  \<open>Unwrap\<close> yields that aggregate: it is not \<open>c\<close> itself, its only member is \<open>c\<close>,
  \<^verbatim>\<open>errors.Is\<close> finds \<open>c\<close> in it, and it is never the sentinel (a sentinel is not an
  aggregate). Without a cause \<open>Unwrap\<close> yields nil. For a single cause that is an
  aggregate, \<open>Unwrap\<close> yields a new aggregate with its members, or nil when it has none.
\<close>

theorem Unwrap_Wrap_single_cause:
  assumes "\<not> isMultiError c" and "\<not> isMultiError S"
  shows "sentinelError_Unwrap (Wrap g a (Some S) [Some c])
           = Some (MultiError a [c] (MultiErrorFormat g))
         \<and> \<not> go_eq (MultiError a [c] (MultiErrorFormat g)) c
         \<and> \<not> go_eq (MultiError a [c] (MultiErrorFormat g)) S
         \<and> errors_Is (sentinelError_Unwrap (Wrap g a (Some S) [Some c])) (Some c)
         \<and> sentinelError_Unwrap (Wrap g a (Some S) []) = None
         \<and> sentinelError_Unwrap (Wrap g a (Some S) [Some (MultiError b ms f)])
             = (if ms = [] then None else Some (MultiError a ms (MultiErrorFormat g)))"
proof -
  have "sentinelError_Unwrap (Wrap g a (Some S) [Some (MultiError b ms f)])
      = (if ms = [] then None else Some (MultiError a ms (MultiErrorFormat g)))"
    using multiError_eq [of g a "[Some (MultiError b ms f)]"]
    by (simp add: sentinelError_Unwrap_def Wrap_def)
  moreover
  have "Append_loop [] [Some c] = [c]"
    using assms(1) by (rule Append_loop_plain)
  then have u: "sentinelError_Unwrap (Wrap g a (Some S) [Some c])
      = Some (MultiError a [c] (MultiErrorFormat g))"
    using multiError_eq [of g a "[Some c]"] by (simp add: sentinelError_Unwrap_def Wrap_def)
  moreover have "errors_Is (Some (MultiError a [c] (MultiErrorFormat g))) (Some c)"
    using errors_Is_loop_iff_reachable [of c c] go_eq_refl [of c]
    by (cases c) (simp_all add: errors_Is_def)
  moreover have "sentinelError_Unwrap (Wrap g a (Some S) []) = None"
    using multiError_eq [of g a "[]"] by (simp add: sentinelError_Unwrap_def Wrap_def)
  ultimately show ?thesis
    using go_eq_MultiError_plain [OF assms(1)] go_eq_MultiError_plain [OF assms(2)] by simp
qed

theorem Unwrap_Wrap_single_cause_witness:
  "\<not> isMultiError (PacketDecodingError ''bad CRC'') \<and> \<not> isMultiError ErrOutOfBrokers
   \<and> sentinelError_Unwrap
        (Wrap init_globals 4 (Some ErrOutOfBrokers) [Some (PacketDecodingError ''bad CRC'')])
       = Some (MultiError 4 [PacketDecodingError ''bad CRC''] (Some CondensedFormat))
   \<and> sentinelError_Unwrap (Wrap init_globals 4 (Some ErrOutOfBrokers) []) = None"
proof -
  have c: "\<not> isMultiError (PacketDecodingError ''bad CRC'')" by simp
  have s: "\<not> isMultiError ErrOutOfBrokers" by (simp add: sentinel_defs)
  show ?thesis
    using Unwrap_Wrap_single_cause [OF c s, of init_globals 4] c s
    by (simp add: init_globals_def)
qed

theorem Unwrap_Wrap_counterexample:
  "sentinelError_Unwrap (Wrap init_globals 100 (Some ErrOutOfBrokers) [Some ErrClosedClient])
     = Some (MultiError 100 [ErrClosedClient] (Some CondensedFormat))
   \<and> sentinelError_Unwrap (Wrap init_globals 100 (Some ErrOutOfBrokers) [Some ErrClosedClient])
     \<noteq> Some ErrClosedClient
   \<and> \<not> go_eq_opt
        (sentinelError_Unwrap (Wrap init_globals 100 (Some ErrOutOfBrokers) [Some ErrClosedClient]))
        (Some ErrClosedClient)"
  by (simp add: aggregate_defs sentinel_defs)

text \<open>
  C4. For a sentinel \<open>S\<close> of the catalog (an \<^verbatim>\<open>errors.New\<close> value), any causes and any
  target error \<open>T\<close>, the method \<open>Is\<close> of \<open>Wrap(S, causes...)\<close> answers exactly as the
  specification words it: true when \<open>T\<close> is identical to \<open>S\<close> or to something that the
  walk through the stored cause meets. In particular the wrap is its sentinel, it is a
  cause that is itself a sentinel, and it is not a sentinel at a third address.
  (For a nil target the method compares with nil instead of walking:
  lemma \<open>sentinelError_Is_nil_target\<close>.)
\<close>

theorem sentinelError_Is_walks_sentinel_and_cause:
  "(sentinelError_Is (Wrap g a (Some (ErrorString p s)) cs) (Some T)
      \<longleftrightarrow> spec_Is (ErrorString p s) (multiError g a cs) T)
   \<and> sentinelError_Is (Wrap g a (Some (ErrorString p s)) cs) (Some (ErrorString p s))
   \<and> sentinelError_Is (Wrap g a (Some (ErrorString p s)) [Some (ErrorString q t)])
        (Some (ErrorString q t))
   \<and> (r \<noteq> p \<and> r \<noteq> q \<longrightarrow>
        \<not> sentinelError_Is (Wrap g a (Some (ErrorString p s)) [Some (ErrorString q t)])
            (Some (ErrorString r u)))"
proof -
  have walk: "sentinelError_Is (Wrap g a (Some (ErrorString p s)) cs) (Some T)
      \<longleftrightarrow> spec_Is (ErrorString p s) (multiError g a cs) T" for cs T
    unfolding sentinelError_Is_Wrap spec_Is_def
    by (simp add: errors_Is_loop_iff_reachable split: option.splits)
  have single: "multiError g a [Some (ErrorString q t)]
      = Some (MultiError a [ErrorString q t] (MultiErrorFormat g))"
    using multiError_eq [of g a "[Some (ErrorString q t)]"] by simp
  have "spec_Is (ErrorString p s) (multiError g a cs) (ErrorString p s)"
    by (simp add: spec_Is_def)
  moreover have "spec_Is (ErrorString p s) (multiError g a [Some (ErrorString q t)])
      (ErrorString q t)"
    unfolding single by (simp add: spec_Is_def)
  moreover have "\<not> spec_Is (ErrorString p s) (multiError g a [Some (ErrorString q t)])
      (ErrorString r u)" if "r \<noteq> p" and "r \<noteq> q"
    unfolding single using that by (simp add: spec_Is_def)
  ultimately show ?thesis
    using walk by blast
qed

theorem sentinelError_Is_walks_sentinel_and_cause_witness:
  "sentinelError_Is
     (Wrap init_globals 1 (Some (ErrorString 1 ''out of brokers''))
        [Some (SentinelError (Some (ErrorString 3 ''closed'')) (Some (KErr ErrRequestTimedOut))),
         Some (ErrorString 7 ''not connected'')])
     (Some (ErrorString 3 ''closed''))
   \<and> sentinelError_Is
     (Wrap init_globals 1 (Some (ErrorString 1 ''out of brokers''))
        [Some (SentinelError (Some (ErrorString 3 ''closed'')) (Some (KErr ErrRequestTimedOut))),
         Some (ErrorString 7 ''not connected'')])
     (Some (KErr ErrRequestTimedOut))
   \<and> \<not> sentinelError_Is
     (Wrap init_globals 1 (Some (ErrorString 1 ''out of brokers''))
        [Some (SentinelError (Some (ErrorString 3 ''closed'')) (Some (KErr ErrRequestTimedOut))),
         Some (ErrorString 7 ''not connected'')])
     (Some (ErrorString 9 ''shutting down''))"
  by (simp only: sentinelError_Is_walks_sentinel_and_cause [THEN conjunct1])
     (simp add: spec_Is_def aggregate_defs)

text \<open>
  C5, as the code has it. Without a cause the text is the sentinel's. With causes the
  text is the sentinel's, the separator and the text of the stored aggregate, which is
  produced by the policy that was current when \<open>Wrap\<close> ran. For a single cause \<open>c\<close>
  that is not an aggregate this is the policy's text for the list \<open>[c]\<close>: the text of
  \<open>c\<close> under the default policy, but not under every policy. For two causes it is the
  text of their fold. The counterexample wraps one sentinel around another while
  \<open>MultiErrorFormat\<close> is nil: the cause is rendered by the list formatter of the
  library, header and bullet included.
\<close>

theorem Wrap_rendering:
  "sentinelError_Error I (Wrap g a (Some S) []) = Error I S
   \<and> (\<not> isMultiError c \<longrightarrow>
        sentinelError_Error I (Wrap g a (Some S) [Some c])
          = Error I S @ '': '' @ call_format I (effective_format (MultiErrorFormat g)) [c])
   \<and> (\<not> isMultiError c \<and> MultiErrorFormat g = Some CondensedFormat \<longrightarrow>
        sentinelError_Error I (Wrap g a (Some S) [Some c]) = Error I S @ '': '' @ Error I c)
   \<and> (multiError g b [c1, c2] = Some m \<longrightarrow>
        sentinelError_Error I (Wrap g a (Some S) [c1, c2]) = Error I S @ '': '' @ Error I m)"
proof -
  have none: "sentinelError_Error I (Wrap g a (Some S) []) = Error I S"
    using Error_Wrap [of I g a S "[]"] multiError_eq [of g a "[]"] by simp
  have one: "sentinelError_Error I (Wrap g a (Some S) [Some c])
      = Error I S @ '': '' @ call_format I (effective_format (MultiErrorFormat g)) [c]"
    if "\<not> isMultiError c"
  proof -
    have "multiError g a [Some c] = Some (MultiError a [c] (MultiErrorFormat g))"
      using Append_loop_plain [OF that] multiError_eq [of g a "[Some c]"] by simp
    then show ?thesis
      using Error_Wrap [of I g a S "[Some c]"] Error_MultiError [of I a "[c]"] by simp
  qed
  have dflt: "call_format I (effective_format (Some CondensedFormat)) [c] = Error I c"
    by (simp add: call_format_def effective_format_def CondensedFormat_text_def)
  have two: "sentinelError_Error I (Wrap g a (Some S) [c1, c2]) = Error I S @ '': '' @ Error I m"
    if "multiError g b [c1, c2] = Some m"
  proof -
    have ne: "Append_loop [] [c1, c2] \<noteq> []"
      using that multiError_eq [of g b "[c1, c2]"] by (auto split: if_splits)
    then have "m = MultiError b (Append_loop [] [c1, c2]) (MultiErrorFormat g)"
      using that multiError_eq [of g b "[c1, c2]"] by simp
    moreover have "multiError g a [c1, c2]
        = Some (MultiError a (Append_loop [] [c1, c2]) (MultiErrorFormat g))"
      using ne multiError_eq [of g a "[c1, c2]"] by simp
    ultimately show ?thesis
      using Error_Wrap [of I g a S "[c1, c2]"] by simp
  qed
  show ?thesis
    using none one dflt two by auto
qed

theorem Wrap_rendering_witness:
  "(\<forall>I. sentinelError_Error I (Wrap init_globals 2 (Some ErrOutOfBrokers) [])
       = ''kafka: client has run out of available brokers to talk to'')
   \<and> (\<forall>I. sentinelError_Error I
            (Wrap init_globals 2 (Some ErrOutOfBrokers) [Some (ConfigurationError ''no brokers'')])
       = ''kafka: client has run out of available brokers to talk to: ''
         @ ''kafka: invalid configuration (no brokers)'')
   \<and> (\<forall>I. sentinelError_Error I
            (Wrap init_globals 2 (Some ErrOutOfBrokers) [Some ErrNotConnected, Some ErrClosedClient])
       = ''kafka: client has run out of available brokers to talk to: ''
         @ ''2 errors occurred:'' @ [newline, tab]
         @ ''* kafka: broker not connected'' @ [newline, tab]
         @ ''* kafka: tried to use a client that was closed'' @ [newline])"
proof (intro conjI allI)
  fix I
  note W = Wrap_rendering [of I init_globals 2 ErrOutOfBrokers "ConfigurationError ''no brokers''"
      2 "Some ErrNotConnected" "Some ErrClosedClient"
      "MultiError 2 [ErrNotConnected, ErrClosedClient] (Some CondensedFormat)"]
  have c: "\<not> isMultiError (ConfigurationError ''no brokers'')
      \<and> MultiErrorFormat init_globals = Some CondensedFormat"
    by (simp add: init_globals_def)
  have m: "multiError init_globals 2 [Some ErrNotConnected, Some ErrClosedClient]
      = Some (MultiError 2 [ErrNotConnected, ErrClosedClient] (Some CondensedFormat))"
    by (simp add: aggregate_defs sentinel_defs)
  have "sentinelError_Error I (Wrap init_globals 2 (Some ErrOutOfBrokers) [])
      = Error I ErrOutOfBrokers"
    using W by blast
  then show "sentinelError_Error I (Wrap init_globals 2 (Some ErrOutOfBrokers) [])
      = ''kafka: client has run out of available brokers to talk to''"
    by (simp add: sentinel_defs)
  have "sentinelError_Error I
        (Wrap init_globals 2 (Some ErrOutOfBrokers) [Some (ConfigurationError ''no brokers'')])
      = Error I ErrOutOfBrokers @ '': '' @ Error I (ConfigurationError ''no brokers'')"
    using W c by blast
  then show "sentinelError_Error I
        (Wrap init_globals 2 (Some ErrOutOfBrokers) [Some (ConfigurationError ''no brokers'')])
      = ''kafka: client has run out of available brokers to talk to: ''
        @ ''kafka: invalid configuration (no brokers)''"
    by (simp add: sentinel_defs)
  have "sentinelError_Error I
        (Wrap init_globals 2 (Some ErrOutOfBrokers) [Some ErrNotConnected, Some ErrClosedClient])
      = Error I ErrOutOfBrokers @ '': ''
        @ Error I (MultiError 2 [ErrNotConnected, ErrClosedClient] (Some CondensedFormat))"
    using W m by blast
  then show "sentinelError_Error I
        (Wrap init_globals 2 (Some ErrOutOfBrokers) [Some ErrNotConnected, Some ErrClosedClient])
      = ''kafka: client has run out of available brokers to talk to: ''
        @ ''2 errors occurred:'' @ [newline, tab]
        @ ''* kafka: broker not connected'' @ [newline, tab]
        @ ''* kafka: tried to use a client that was closed'' @ [newline]"
    by (simp add: sentinel_defs format_defs)
qed

theorem Wrap_rendering_counterexample:
  "sentinelError_Error no_user_formats
     (Wrap \<lparr>MultiErrorFormat = None\<rparr> 100 (Some ErrOutOfBrokers) [Some ErrClosedClient])
     = ''kafka: client has run out of available brokers to talk to: ''
       @ ''1 error occurred:'' @ [newline, tab]
       @ ''* kafka: tried to use a client that was closed'' @ [newline, newline]
   \<and> sentinelError_Error no_user_formats
       (Wrap \<lparr>MultiErrorFormat = None\<rparr> 100 (Some ErrOutOfBrokers) [Some ErrClosedClient])
     \<noteq> Error no_user_formats ErrOutOfBrokers @ '': '' @ Error no_user_formats ErrClosedClient"
  by (simp add: aggregate_defs sentinel_defs format_defs)


end
